theory Spec2Isabelle
  imports Main "HOL-Library.Word" "HOL-Library.List_Lexorder" "HOL-Library.Char_ord"
    "HOL-Library.Sublist" "HOL-Library.Monad_Syntax"
begin

unbundle bit_operations_syntax

section \<open>Python values and attribute access\<close>

text \<open>
  The analyzer of \<^verbatim>\<open>src/extract/extract.py\<close> reads every field of a store object through
  \<^verbatim>\<open>getattr(obj, name, default)\<close>, \<^verbatim>\<open>hasattr(obj, name)\<close> or a plain \<^verbatim>\<open>obj.name\<close>.
  An attribute of a store object is therefore one of three things: not there (the read
  raises AttributeError), there but raising another exception when read (the accessor of
  the decoder fails), or there with a value.
\<close>

datatype 'a access = Missing | Fails | Has 'a

text \<open>The three ways of reading; \<open>None\<close> is an exception that leaves the expression.\<close>

definition getattr_d :: "'a access \<Rightarrow> 'a \<Rightarrow> 'a option" where
  "getattr_d a d = (case a of Missing \<Rightarrow> Some d | Fails \<Rightarrow> None | Has v \<Rightarrow> Some v)"

definition hasattr :: "'a access \<Rightarrow> bool option" where
  "hasattr a = (case a of Missing \<Rightarrow> Some False | Fails \<Rightarrow> None | Has v \<Rightarrow> Some True)"

definition attr :: "'a access \<Rightarrow> 'a option" where
  "attr a = (case a of Has v \<Rightarrow> Some v | _ \<Rightarrow> None)"

subsection \<open>Text\<close>

text \<open>
  A Python \<^verbatim>\<open>str\<close> is a sequence of code points; the model has the code points below 256,
  one \<^typ>\<open>char\<close> each. \<open>isalnum\<close>, \<open>isspace\<close> and \<open>lower_char\<close> are Python's
  \<^verbatim>\<open>str.isalnum\<close>, \<^verbatim>\<open>str.isspace\<close> and \<^verbatim>\<open>str.lower\<close> on that range.
\<close>

definition isalnum :: "char \<Rightarrow> bool" where
  "isalnum c = (let n = (of_char c :: nat) in
     (48 \<le> n \<and> n \<le> 57) \<or> (65 \<le> n \<and> n \<le> 90) \<or> (97 \<le> n \<and> n \<le> 122) \<or>
     n \<in> {170, 178, 179, 181, 185, 186, 188, 189, 190} \<or>
     (192 \<le> n \<and> n \<le> 214) \<or> (216 \<le> n \<and> n \<le> 246) \<or> 248 \<le> n)"

definition isspace :: "char \<Rightarrow> bool" where
  "isspace c = (let n = (of_char c :: nat) in
     (9 \<le> n \<and> n \<le> 13) \<or> (28 \<le> n \<and> n \<le> 32) \<or> n = 133 \<or> n = 160)"

definition lower_char :: "char \<Rightarrow> char" where
  "lower_char c = (let n = (of_char c :: nat) in
     if (65 \<le> n \<and> n \<le> 90) \<or> (192 \<le> n \<and> n \<le> 214) \<or> (216 \<le> n \<and> n \<le> 222)
     then char_of (n + 32) else c)"

definition lower :: "string \<Rightarrow> string" where
  "lower s = map lower_char s"

definition rstrip :: "string \<Rightarrow> string" where
  "rstrip s = rev (dropWhile isspace (rev s))"

text \<open>Decimal rendering of a number, as an f-string prints an \<^verbatim>\<open>int\<close>.\<close>

fun show_nat :: "nat \<Rightarrow> string" where
  "show_nat n =
     (if n < 10 then [''0123456789'' ! n]
      else show_nat (n div 10) @ [''0123456789'' ! (n mod 10)])"

declare show_nat.simps [simp del]

definition zfill :: "nat \<Rightarrow> string \<Rightarrow> string" where
  "zfill w s = replicate (w - length s) (CHR ''0'') @ s"

text \<open>\<^verbatim>\<open>str.encode()\<close>: UTF-8 of code points below 256.\<close>

type_synonym byte = "8 word"

definition encode :: "string \<Rightarrow> byte list" where
  "encode s = concat (map (\<lambda>c. let n = (of_char c :: nat) in
       if n < 128 then [of_nat n] else [of_nat (192 + n div 64), of_nat (128 + n mod 64)]) s)"

subsection \<open>Timestamps\<close>

text \<open>
  A naive \<^verbatim>\<open>datetime\<close>. \<open>dt_str\<close> is \<^verbatim>\<open>str(dt)\<close> (what an f-string prints) and
  \<open>strftime_canonical\<close> is \<^verbatim>\<open>dt.strftime('%Y-%m-%d %H:%M:%S')\<close>, with the year on four
  digits as Python documents \<^verbatim>\<open>%Y\<close>.
\<close>

record datetime =
  year :: nat
  month :: nat
  day :: nat
  hour :: nat
  minute :: nat
  second :: nat
  microsecond :: nat

definition strftime_canonical :: "datetime \<Rightarrow> string" where
  "strftime_canonical dt =
     zfill 4 (show_nat (year dt)) @ ''-'' @ zfill 2 (show_nat (month dt)) @ ''-'' @
     zfill 2 (show_nat (day dt)) @ '' '' @ zfill 2 (show_nat (hour dt)) @ '':'' @
     zfill 2 (show_nat (minute dt)) @ '':'' @ zfill 2 (show_nat (second dt))"

definition dt_str :: "datetime \<Rightarrow> string" where
  "dt_str dt = strftime_canonical dt @
     (if microsecond dt = 0 then [] else ''.'' @ zfill 6 (show_nat (microsecond dt)))"

text \<open>\<^verbatim>\<open>dt.isoformat()\<close>: as \<open>dt_str\<close>, with a \<^verbatim>\<open>T\<close> between date and time.\<close>

definition isoformat :: "datetime \<Rightarrow> string" where
  "isoformat dt =
     zfill 4 (show_nat (year dt)) @ ''-'' @ zfill 2 (show_nat (month dt)) @ ''-'' @
     zfill 2 (show_nat (day dt)) @ ''T'' @ zfill 2 (show_nat (hour dt)) @ '':'' @
     zfill 2 (show_nat (minute dt)) @ '':'' @ zfill 2 (show_nat (second dt)) @
     (if microsecond dt = 0 then [] else ''.'' @ zfill 6 (show_nat (microsecond dt)))"

text \<open>\<^verbatim>\<open>strftime('%Y%m%d_%H%M%S')\<close>, the stamp in the names of the output files.\<close>

definition strftime_compact :: "datetime \<Rightarrow> string" where
  "strftime_compact dt =
     zfill 4 (show_nat (year dt)) @ zfill 2 (show_nat (month dt)) @
     zfill 2 (show_nat (day dt)) @ ''_'' @ zfill 2 (show_nat (hour dt)) @
     zfill 2 (show_nat (minute dt)) @ zfill 2 (show_nat (second dt))"

text \<open>
  The wall clock as the run reads it: the local time, and the POSIX time of
  \<^verbatim>\<open>datetime.now().timestamp()\<close> as whole seconds and microseconds (the float itself is
  not modelled, only the digits it prints).
\<close>

record clock_reading =
  wall :: datetime
  posix_seconds :: nat
  posix_micros :: nat

definition timestamp_str :: "clock_reading \<Rightarrow> string" where
  "timestamp_str t = show_nat (posix_seconds t) @ ''.'' @ show_nat (posix_micros t)"

text \<open>\<open>_format_datetime\<close>: \<^verbatim>\<open>None\<close> gives the empty text, a datetime its canonical form.\<close>

definition format_datetime :: "datetime option \<Rightarrow> string" where
  "format_datetime dt = (case dt of None \<Rightarrow> [] | Some d \<Rightarrow> strftime_canonical d)"

text \<open>What an f-string prints for a value that is \<^verbatim>\<open>None\<close> or a datetime.\<close>

definition fmt_time :: "datetime option \<Rightarrow> string" where
  "fmt_time dt = (case dt of None \<Rightarrow> ''None'' | Some d \<Rightarrow> dt_str d)"

section \<open>The content hash\<close>

text \<open>
  \<^verbatim>\<open>hashlib.md5(data).hexdigest()\<close>: MD5 as RFC 1321 defines it, on 32-bit words.
\<close>

definition md5_s :: "nat list" where
  "md5_s = [7, 12, 17, 22, 7, 12, 17, 22, 7, 12, 17, 22, 7, 12, 17, 22,
            5, 9, 14, 20, 5, 9, 14, 20, 5, 9, 14, 20, 5, 9, 14, 20,
            4, 11, 16, 23, 4, 11, 16, 23, 4, 11, 16, 23, 4, 11, 16, 23,
            6, 10, 15, 21, 6, 10, 15, 21, 6, 10, 15, 21, 6, 10, 15, 21]"

definition md5_K :: "32 word list" where
  "md5_K = [0xd76aa478, 0xe8c7b756, 0x242070db, 0xc1bdceee,
            0xf57c0faf, 0x4787c62a, 0xa8304613, 0xfd469501,
            0x698098d8, 0x8b44f7af, 0xffff5bb1, 0x895cd7be,
            0x6b901122, 0xfd987193, 0xa679438e, 0x49b40821,
            0xf61e2562, 0xc040b340, 0x265e5a51, 0xe9b6c7aa,
            0xd62f105d, 0x02441453, 0xd8a1e681, 0xe7d3fbc8,
            0x21e1cde6, 0xc33707d6, 0xf4d50d87, 0x455a14ed,
            0xa9e3e905, 0xfcefa3f8, 0x676f02d9, 0x8d2a4c8a,
            0xfffa3942, 0x8771f681, 0x6d9d6122, 0xfde5380c,
            0xa4beea44, 0x4bdecfa9, 0xf6bb4b60, 0xbebfbc70,
            0x289b7ec6, 0xeaa127fa, 0xd4ef3085, 0x04881d05,
            0xd9d4d039, 0xe6db99e5, 0x1fa27cf8, 0xc4ac5665,
            0xf4292244, 0x432aff97, 0xab9423a7, 0xfc93a039,
            0x655b59c3, 0x8f0ccc92, 0xffeff47d, 0x85845dd1,
            0x6fa87e4f, 0xfe2ce6e0, 0xa3014314, 0x4e0811a1,
            0xf7537e82, 0xbd3af235, 0x2ad7d2bb, 0xeb86d391]"

definition le_bytes :: "nat \<Rightarrow> nat \<Rightarrow> byte list" where
  "le_bytes k n = map (\<lambda>i. of_nat (n div 2 ^ (8 * i))) [0..<k]"

definition md5_pad :: "byte list \<Rightarrow> byte list" where
  "md5_pad msg =
     msg @ [0x80] @ replicate ((119 - length msg mod 64) mod 64) 0 @
     le_bytes 8 (8 * length msg mod 2 ^ 64)"

fun le_words :: "byte list \<Rightarrow> 32 word list" where
  "le_words (b0 # b1 # b2 # b3 # bs) =
     (ucast b0 OR push_bit 8 (ucast b1) OR push_bit 16 (ucast b2) OR push_bit 24 (ucast b3))
       # le_words bs"
| "le_words _ = []"

fun chunks :: "nat \<Rightarrow> 'a list \<Rightarrow> 'a list list" where
  "chunks n [] = []"
| "chunks n (x # xs) =
     (if n = 0 then [] else take n (x # xs) # chunks n (drop n (x # xs)))"

type_synonym md5_state = "32 word \<times> 32 word \<times> 32 word \<times> 32 word"

definition md5_step :: "32 word list \<Rightarrow> nat \<Rightarrow> md5_state \<Rightarrow> md5_state" where
  "md5_step M i = (\<lambda>(a, b, c, d).
     let (f, g) =
          (if i < 16 then ((b AND c) OR (NOT b AND d), i)
           else if i < 32 then ((d AND b) OR (NOT d AND c), (5 * i + 1) mod 16)
           else if i < 48 then (b XOR c XOR d, (3 * i + 5) mod 16)
           else (c XOR (b OR NOT d), (7 * i) mod 16));
         f' = f + a + md5_K ! i + M ! g
     in (d, b + word_rotl (md5_s ! i) f', b, c))"

definition md5_block :: "md5_state \<Rightarrow> 32 word list \<Rightarrow> md5_state" where
  "md5_block = (\<lambda>(a0, b0, c0, d0) M.
     case fold (md5_step M) [0..<64] (a0, b0, c0, d0) of
       (a, b, c, d) \<Rightarrow> (a0 + a, b0 + b, c0 + c, d0 + d))"

definition md5_digest :: "byte list \<Rightarrow> byte list" where
  "md5_digest msg =
     (case fold (\<lambda>blk h. md5_block h (le_words blk)) (chunks 64 (md5_pad msg))
             (0x67452301, 0xefcdab89, 0x98badcfe, 0x10325476) of
        (a, b, c, d) \<Rightarrow> concat (map (\<lambda>w. le_bytes 4 (unat w)) [a, b, c, d]))"

definition hex_digit :: "nat \<Rightarrow> char" where
  "hex_digit n = ''0123456789abcdef'' ! n"

definition hexdigest :: "byte list \<Rightarrow> string" where
  "hexdigest bs =
     concat (map (\<lambda>b. [hex_digit (unat b div 16), hex_digit (unat b mod 16)]) bs)"

definition md5_hexdigest :: "byte list \<Rightarrow> string" where
  "md5_hexdigest data = hexdigest (md5_digest data)"

section \<open>Paths and the file system\<close>

text \<open>
  A path is its list of components. \<open>path_join\<close> is pathlib's \<^verbatim>\<open>/\<close>: the right operand
  is split at slashes, empty and single-dot components are dropped, and an operand that
  starts with a slash replaces the path. A \<^verbatim>\<open>..\<close> component is kept by pathlib and
  resolved by the file system (\<open>resolve\<close>).
\<close>

type_synonym path = "string list"

fun split_slash :: "string \<Rightarrow> string list" where
  "split_slash [] = [[]]"
| "split_slash (c # cs) =
     (let r = split_slash cs in
      if c = CHR ''/'' then [] # r else (c # hd r) # tl r)"

definition parts :: "string \<Rightarrow> path" where
  "parts s = filter (\<lambda>c. c \<noteq> [] \<and> c \<noteq> ''.'') (split_slash s)"

definition path_join :: "path \<Rightarrow> string \<Rightarrow> path" where
  "path_join p s = (if s \<noteq> [] \<and> hd s = CHR ''/'' then parts s else p @ parts s)"

fun resolve_from :: "path \<Rightarrow> path \<Rightarrow> path" where
  "resolve_from acc [] = acc"
| "resolve_from acc (c # cs) =
     (if c = ''..'' then resolve_from (butlast acc) cs else resolve_from (acc @ [c]) cs)"

definition resolve :: "path \<Rightarrow> path" where
  "resolve p = resolve_from [] p"

section \<open>The store, as the decoder presents it\<close>

text \<open>
  The objects of the decoder (pypff), each with the attributes the analyzer reads. Text
  attributes hold text (the analyzer also decodes byte strings; byte-valued attributes
  are outside the model), time attributes hold a datetime or \<^verbatim>\<open>None\<close>. An attachment's
  name may be \<^verbatim>\<open>None\<close>; its payload is a byte string, empty when there is none.
\<close>

record raw_recipient =
  r_name :: "string access"
  r_email_address :: "string access"
  r_type :: "string access"

record raw_attachment =
  a_name :: "string option access"
  a_size :: "nat access"
  a_attachment_type :: "string access"
  a_data :: "string access"

record message =
  m_subject :: "string access"
  m_sender_name :: "string access"
  m_sender_email_address :: "string access"
  m_plain_text_body :: "string access"
  m_html_body :: "string access"
  m_delivery_time :: "datetime option access"
  m_creation_time :: "datetime option access"
  m_modification_time :: "datetime option access"
  m_size :: "nat access"
  m_message_class :: "string access"
  m_priority :: "string access"
  m_importance :: "string access"
  m_categories :: "string access"
  m_is_read :: "bool access"
  m_recipients :: "raw_recipient list access"
  m_attachments :: "raw_attachment list access"
  m_properties :: "unit list access"

datatype folder =
  Folder (f_name: "string access") (f_sub_folders: "folder list access")
    (f_sub_messages: "message list access")

record pff_file =
  root_folder :: "folder access"
  format_version :: "string access"
  content_type :: "string access"
  file_size :: "nat access"

section \<open>The corpus\<close>

text \<open>The dictionaries the analyzer builds, one record per shape, keys in source order.\<close>

record recipient_data =
  rc_name :: string
  rc_email :: string
  rc_type :: string

record attachment_data =
  att_email_id :: string
  att_index :: nat
  att_name :: "string option"
  att_size :: nat
  att_type :: string
  att_saved_path :: "path option"

record email_data =
  e_id :: string
  e_folder :: string
  e_subject :: string
  e_sender_name :: string
  e_sender_email :: string
  e_recipients :: "recipient_data list"
  e_delivery_time :: string
  e_creation_time :: string
  e_modification_time :: string
  e_size :: nat
  e_body_plain :: string
  e_body_html :: string
  e_message_class :: string
  e_priority :: string
  e_importance :: string
  e_attachments :: "attachment_data list"
  e_categories :: string
  e_read_flag :: bool

record contact_data =
  ct_display_name :: string
  ct_email_address :: string
  ct_business_phone :: string
  ct_home_phone :: string
  ct_mobile_phone :: string
  ct_company :: string
  ct_job_title :: string
  ct_creation_time :: string
  ct_modification_time :: string

record event_data =
  ev_subject :: string
  ev_location :: string
  ev_start_time :: string
  ev_end_time :: string
  ev_organizer :: string
  ev_attendees :: "string list"
  ev_body :: string
  ev_importance :: string
  ev_creation_time :: string

record task_data =
  tk_subject :: string
  tk_body :: string
  tk_status :: string
  tk_priority :: string
  tk_due_date :: string
  tk_start_date :: string
  tk_completion_date :: string
  tk_percent_complete :: nat
  tk_creation_time :: string

record note_data =
  nt_subject :: string
  nt_body :: string
  nt_creation_time :: string
  nt_modification_time :: string
  nt_color :: string
  nt_size :: nat

record journal_data =
  jr_subject :: string
  jr_body :: string
  jr_entry_type :: string
  jr_start_time :: string
  jr_duration :: nat
  jr_companies :: string
  jr_contacts :: string
  jr_creation_time :: string

text \<open>
  The statistics dictionary. \<open>email_date_range\<close> and \<open>top_senders\<close> are keys that
  \<open>generate_statistics\<close> sets only on some paths: \<open>None\<close> is the key being absent.
\<close>

record statistics =
  total_emails :: nat
  total_contacts :: nat
  total_calendar_events :: nat
  total_tasks :: nat
  total_notes :: nat
  total_journal_entries :: nat
  total_attachments :: nat
  analysis_date :: string
  pst_file_name :: string
  pst_file_size :: nat
  email_date_range :: "(string \<times> string) option"
  top_senders :: "(string \<times> nat) list option"

text \<open>\<open>analysis_results\<close>; \<open>r_statistics = None\<close> is the empty dictionary of \<open>__init__\<close>.\<close>

record analysis_results =
  r_emails :: "email_data list"
  r_contacts :: "contact_data list"
  r_calendar :: "event_data list"
  r_tasks :: "task_data list"
  r_notes :: "note_data list"
  r_journal :: "journal_data list"
  r_attachments :: "attachment_data list"
  r_statistics :: "statistics option"

text \<open>A row of the tabular export, with the columns of the \<^verbatim>\<open>DictWriter\<close>.\<close>

record csv_row =
  col_id :: string
  col_folder :: string
  col_subject :: string
  col_sender_name :: string
  col_sender_email :: string
  col_delivery_time :: string
  col_size :: nat
  col_attachments_count :: nat

subsection \<open>Files\<close>

text \<open>
  What a file holds: an attachment's payload, the tree document (the JSON dump of the
  results) or the table (the CSV rows under their header).
\<close>

datatype content =
  Payload string
  | Tree_document analysis_results
  | Table "csv_row list"

text \<open>
  The file system: the directories, the files, and the paths the process may not write
  (any I/O failure). Paths are resolved, the root \<open>[]\<close> is a directory.
\<close>

record filesystem =
  dirs :: "path set"
  files :: "path \<rightharpoonup> content"
  denied :: "path set"

definition is_dir :: "filesystem \<Rightarrow> path \<Rightarrow> bool" where
  "is_dir fs q = (q = [] \<or> q \<in> dirs fs)"

text \<open>
  \<^verbatim>\<open>Path.mkdir(parents=True, exist_ok=True)\<close>: every prefix of the path becomes a
  directory, unless one of them is a file or may not be created.
\<close>

definition mkdir_parents :: "filesystem \<Rightarrow> path \<Rightarrow> filesystem option" where
  "mkdir_parents fs p =
     (let ps = map resolve (prefixes p) in
      if \<exists>d \<in> set ps. files fs d \<noteq> None \<or> (\<not> is_dir fs d \<and> d \<in> denied fs) then None
      else Some (fs\<lparr>dirs := dirs fs \<union> set ps\<rparr>))"

text \<open>
  \<^verbatim>\<open>open(p, 'w')\<close> followed by the write: fails on a directory, under a directory that
  does not exist, and on a denied path.
\<close>

definition write_file :: "filesystem \<Rightarrow> path \<Rightarrow> content \<Rightarrow> filesystem option" where
  "write_file fs p c =
     (let q = resolve p in
      if is_dir fs q \<or> \<not> is_dir fs (butlast q) \<or> q \<in> denied fs then None
      else Some (fs\<lparr>files := (files fs)(q \<mapsto> c)\<rparr>))"

section \<open>The analyzer\<close>

datatype level = DEBUG | INFO | WARNING | ERROR

datatype kind = Contacts | Calendar | Tasks | Notes | Journal

text \<open>One constructor for each logging call of the source, in source order.\<close>

datatype event =
  Pst_not_found | Pst_opened | Pst_format string | Pst_content_type string | Pst_size nat
  | Pst_info_unavailable | Pst_open_failed | Pst_closed
  | Email_extraction_started | Processing_folder string | Email_processing_error
  | Email_extraction_error | Email_data_error | Recipient_error
  | Attachment_extraction_error | Attachment_save_error
  | Kind_started kind | Kind_folder_missing kind | Kind_item_error kind | Kind_error kind
  | Json_saved path | Csv_saved path
  | Analysis_started | Analysis_done | Output_files path | Analysis_error

text \<open>
  The state of a \<open>PSTAnalyzer\<close> together with the world it acts on. \<open>pst_exists\<close>,
  \<open>pst_stat_size\<close> and \<open>container\<close> are the store file as the operating system and the
  decoder present it (\<open>container = None\<close>: the decoder cannot open it); \<open>pst_file\<close> is
  the analyzer's own field, \<open>None\<close> until \<open>open_pst_file\<close> sets it.
\<close>

record analyzer =
  pst_file_path :: string
  pst_exists :: bool
  pst_stat_size :: nat
  container :: "pff_file option"
  output_dir :: path
  pst_file :: "pff_file option"
  pst_open :: bool
  results :: analysis_results
  log :: "(level \<times> event) list"
  fs :: filesystem
  clock :: clock_reading

text \<open>\<open>_setup_logging\<close> sets the level to INFO: a debug record is dropped.\<close>

definition logger :: "level \<Rightarrow> event \<Rightarrow> analyzer \<Rightarrow> analyzer" where
  "logger l e st = (if l = DEBUG then st else st\<lparr>log := log st @ [(l, e)]\<rparr>)"

definition empty_results :: analysis_results where
  "empty_results = \<lparr>r_emails = [], r_contacts = [], r_calendar = [], r_tasks = [],
     r_notes = [], r_journal = [], r_attachments = [], r_statistics = None\<rparr>"

subsection \<open>Identity\<close>

text \<open>
  \<open>_generate_email_id\<close>: the first 16 hex digits of the MD5 of subject, sender address
  and creation time as an f-string prints them (a missing attribute prints as the empty
  text). Any exception is caught by the bare \<^verbatim>\<open>except\<close>, and the id is then made from
  the clock.
\<close>

definition generate_email_id :: "message \<Rightarrow> analyzer \<Rightarrow> string" where
  "generate_email_id m st =
     (case do {
          subject \<leftarrow> getattr_d (m_subject m) [];
          sender \<leftarrow> getattr_d (m_sender_email_address m) [];
          creation \<leftarrow> getattr_d (map_access fmt_time (m_creation_time m)) [];
          Some (subject @ sender @ creation)
        } of
        Some content \<Rightarrow> take 16 (md5_hexdigest (encode content))
      | None \<Rightarrow> ''email_'' @ timestamp_str (clock st))"

subsection \<open>Attachments\<close>

text \<open>The sanitized file name of \<open>_save_attachment\<close> (its variable \<open>safe_filename\<close>).\<close>

definition keep_char :: "char \<Rightarrow> bool" where
  "keep_char c = (isalnum c \<or> c \<in> {CHR '' '', CHR ''-'', CHR ''_'', CHR ''.''})"

definition safe_filename :: "string \<Rightarrow> nat \<Rightarrow> string" where
  "safe_filename filename index =
     (let s = rstrip (filter keep_char filename)
      in if s = [] then ''attachment_'' @ show_nat index else s)"

text \<open>
  \<open>_save_attachment\<close>. Every exception inside is caught and logged as a warning, and
  the result is then \<open>None\<close>; a name that is \<^verbatim>\<open>None\<close> raises when it is iterated.
\<close>

definition save_attachment ::
  "raw_attachment \<Rightarrow> string \<Rightarrow> nat \<Rightarrow> analyzer \<Rightarrow> path option \<times> analyzer" where
  "save_attachment a email_id index st =
     (let attachments_dir = path_join (path_join (output_dir st) ''attachments'') email_id
      in case mkdir_parents (fs st) attachments_dir of
           None \<Rightarrow> (None, logger WARNING Attachment_save_error st)
         | Some fs1 \<Rightarrow>
             (let st1 = st\<lparr>fs := fs1\<rparr>
              in case getattr_d (a_name a) (Some (''attachment_'' @ show_nat index)) of
                   None \<Rightarrow> (None, logger WARNING Attachment_save_error st1)
                 | Some None \<Rightarrow> (None, logger WARNING Attachment_save_error st1)
                 | Some (Some filename) \<Rightarrow>
                     (let file_path = path_join attachments_dir (safe_filename filename index)
                      in case a_data a of
                           Missing \<Rightarrow> (None, st1)
                         | Fails \<Rightarrow> (None, logger WARNING Attachment_save_error st1)
                         | Has data \<Rightarrow>
                             if data = [] then (None, st1)
                             else (case write_file (fs st1) file_path (Payload data) of
                                     None \<Rightarrow> (None, logger WARNING Attachment_save_error st1)
                                   | Some fs2 \<Rightarrow> (Some file_path, st1\<lparr>fs := fs2\<rparr>)))))"

text \<open>
  The loop of \<open>_extract_attachments\<close>: the record is appended to the email's own list
  and to the corpus-wide list. The flag is \<open>False\<close> when an attribute read raised, which
  ends the loop.
\<close>

fun attachments_loop ::
  "raw_attachment list \<Rightarrow> nat \<Rightarrow> string \<Rightarrow> analyzer \<Rightarrow> attachment_data list \<times> bool \<times> analyzer"
  where
  "attachments_loop [] i email_id st = ([], True, st)"
| "attachments_loop (a # as) i email_id st =
     (case do {
          name \<leftarrow> getattr_d (a_name a) (Some (''attachment_'' @ show_nat i));
          sz \<leftarrow> getattr_d (a_size a) 0;
          ty \<leftarrow> getattr_d (a_attachment_type a) [];
          Some (name, sz, ty)
        } of
        None \<Rightarrow> ([], False, st)
      | Some (name, sz, ty) \<Rightarrow>
          (let (saved_path, st1) = save_attachment a email_id i st;
               attachment_data = \<lparr>att_email_id = email_id, att_index = i, att_name = name,
                 att_size = sz, att_type = ty, att_saved_path = saved_path\<rparr>;
               st2 = st1\<lparr>results := (results st1)
                 \<lparr>r_attachments := r_attachments (results st1) @ [attachment_data]\<rparr>\<rparr>;
               (rest, ok, st3) = attachments_loop as (Suc i) email_id st2
           in (attachment_data # rest, ok, st3)))"

definition extract_attachments ::
  "message \<Rightarrow> string \<Rightarrow> analyzer \<Rightarrow> attachment_data list \<times> analyzer" where
  "extract_attachments m email_id st =
     (case m_attachments m of
        Missing \<Rightarrow> ([], st)
      | Fails \<Rightarrow> ([], logger DEBUG Attachment_extraction_error st)
      | Has as \<Rightarrow>
          (case attachments_loop as 0 email_id st of
             (attachments, ok, st1) \<Rightarrow>
               (attachments, if ok then st1 else logger DEBUG Attachment_extraction_error st1)))"

subsection \<open>Recipients\<close>

fun recipients_loop :: "raw_recipient list \<Rightarrow> recipient_data list \<times> bool" where
  "recipients_loop [] = ([], True)"
| "recipients_loop (r # rs) =
     (case do {
          name \<leftarrow> getattr_d (r_name r) [];
          email \<leftarrow> getattr_d (r_email_address r) [];
          ty \<leftarrow> getattr_d (r_type r) [];
          Some \<lparr>rc_name = name, rc_email = email, rc_type = ty\<rparr>
        } of
        None \<Rightarrow> ([], False)
      | Some recipient_data \<Rightarrow>
          (let (rest, ok) = recipients_loop rs in (recipient_data # rest, ok)))"

definition extract_recipients ::
  "message \<Rightarrow> analyzer \<Rightarrow> recipient_data list \<times> analyzer" where
  "extract_recipients m st =
     (case m_recipients m of
        Missing \<Rightarrow> ([], st)
      | Fails \<Rightarrow> ([], logger DEBUG Recipient_error st)
      | Has rs \<Rightarrow>
          (case recipients_loop rs of
             (recipients, ok) \<Rightarrow>
               (recipients, if ok then st else logger DEBUG Recipient_error st)))"

subsection \<open>One email\<close>

text \<open>
  \<open>_extract_single_email\<close>, in the order Python evaluates it: the id, the five text
  fields, then the dictionary display entry by entry (recipients, the times, size, class,
  priority, importance, attachments, categories, read flag). A read that raises leaves
  for the \<^verbatim>\<open>except\<close>: a warning, and \<open>None\<close>.
\<close>

definition text_fields :: "message \<Rightarrow> (string \<times> string \<times> string \<times> string \<times> string) option"
  where
  "text_fields m = do {
     subject \<leftarrow> getattr_d (m_subject m) [];
     sender_name \<leftarrow> getattr_d (m_sender_name m) [];
     sender_email \<leftarrow> getattr_d (m_sender_email_address m) [];
     body_plain \<leftarrow> getattr_d (m_plain_text_body m) [];
     body_html \<leftarrow> getattr_d (m_html_body m) [];
     Some (subject, sender_name, sender_email, body_plain, body_html)
   }"

definition middle_fields ::
  "message \<Rightarrow> (string \<times> string \<times> string \<times> nat \<times> string \<times> string \<times> string) option" where
  "middle_fields m = do {
     delivery \<leftarrow> getattr_d (m_delivery_time m) None;
     creation \<leftarrow> getattr_d (m_creation_time m) None;
     modification \<leftarrow> getattr_d (m_modification_time m) None;
     sz \<leftarrow> getattr_d (m_size m) 0;
     message_class \<leftarrow> getattr_d (m_message_class m) [];
     priority \<leftarrow> getattr_d (m_priority m) [];
     importance \<leftarrow> getattr_d (m_importance m) [];
     Some (format_datetime delivery, format_datetime creation, format_datetime modification,
           sz, message_class, priority, importance)
   }"

definition last_fields :: "message \<Rightarrow> (string \<times> bool) option" where
  "last_fields m = do {
     categories \<leftarrow> getattr_d (m_categories m) [];
     read_flag \<leftarrow> getattr_d (m_is_read m) False;
     Some (categories, read_flag)
   }"

definition extract_single_email ::
  "message \<Rightarrow> string \<Rightarrow> analyzer \<Rightarrow> email_data option \<times> analyzer" where
  "extract_single_email m folder_path st =
     (let email_id = generate_email_id m st
      in case text_fields m of
           None \<Rightarrow> (None, logger WARNING Email_data_error st)
         | Some (subject, sender_name, sender_email, body_plain, body_html) \<Rightarrow>
             (let (recipients, st1) = extract_recipients m st
              in case middle_fields m of
                   None \<Rightarrow> (None, logger WARNING Email_data_error st1)
                 | Some (delivery, creation, modification, sz, message_class, priority,
                         importance) \<Rightarrow>
                     (let (attachments, st2) = extract_attachments m email_id st1
                      in case last_fields m of
                           None \<Rightarrow> (None, logger WARNING Email_data_error st2)
                         | Some (categories, read_flag) \<Rightarrow>
                             (Some \<lparr>e_id = email_id, e_folder = folder_path,
                                e_subject = subject, e_sender_name = sender_name,
                                e_sender_email = sender_email, e_recipients = recipients,
                                e_delivery_time = delivery, e_creation_time = creation,
                                e_modification_time = modification, e_size = sz,
                                e_body_plain = take 1000 body_plain,
                                e_body_html = take 1000 body_html,
                                e_message_class = message_class, e_priority = priority,
                                e_importance = importance, e_attachments = attachments,
                                e_categories = categories, e_read_flag = read_flag\<rparr>,
                              st2))))"

subsection \<open>The traversal\<close>

text \<open>
  The message loop of \<open>extract_emails\<close>. \<open>_extract_single_email\<close> catches every
  exception itself, so the \<^verbatim>\<open>except\<close> of the loop body is never entered; a message that
  gave \<open>None\<close> is skipped.
\<close>

fun process_messages ::
  "message list \<Rightarrow> string \<Rightarrow> analyzer \<Rightarrow> email_data list \<times> analyzer" where
  "process_messages [] parent_path st = ([], st)"
| "process_messages (m # ms) parent_path st =
     (let (email_data, st1) = extract_single_email m parent_path st;
          (rest, st2) = process_messages ms parent_path st1
      in (case email_data of None \<Rightarrow> rest | Some e \<Rightarrow> e # rest, st2))"

text \<open>
  \<open>extract_emails\<close> on a folder: first the loop over the sub-folders (\<open>walk_sub_folders\<close>,
  whose flag is \<open>False\<close> when reading a sub-folder's name raised), then the messages of
  the folder itself. An exception in either part is caught by the outer \<^verbatim>\<open>try\<close>, logged
  as an error, and the emails collected so far are returned.
\<close>

fun extract_emails :: "folder \<Rightarrow> string \<Rightarrow> analyzer \<Rightarrow> email_data list \<times> analyzer"
  and walk_sub_folders ::
    "folder list \<Rightarrow> string \<Rightarrow> analyzer \<Rightarrow> email_data list \<times> bool \<times> analyzer" where
  "extract_emails (Folder name (Has sub_folders) messages) parent_path st =
     (case walk_sub_folders sub_folders parent_path st of
        (emails, False, st1) \<Rightarrow> (emails, logger ERROR Email_extraction_error st1)
      | (emails, True, st1) \<Rightarrow>
          (case messages of
             Has ms \<Rightarrow>
               (let (own, st2) = process_messages ms parent_path st1 in (emails @ own, st2))
           | _ \<Rightarrow> (emails, logger ERROR Email_extraction_error st1)))"
| "extract_emails (Folder name Missing messages) parent_path st =
     ([], logger ERROR Email_extraction_error st)"
| "extract_emails (Folder name Fails messages) parent_path st =
     ([], logger ERROR Email_extraction_error st)"
| "walk_sub_folders [] parent_path st = ([], True, st)"
| "walk_sub_folders (sub_folder # rest) parent_path st =
     (case f_name sub_folder of
        Has sub_name \<Rightarrow>
          (let folder_path =
                 (if parent_path \<noteq> [] then parent_path @ ''/'' @ sub_name else sub_name);
               st1 = logger INFO (Processing_folder folder_path) st;
               (emails, st2) = extract_emails sub_folder folder_path st1;
               (more, ok, st3) = walk_sub_folders rest parent_path st2
           in (emails @ more, ok, st3))
      | _ \<Rightarrow> ([], False, st))"

text \<open>\<open>extract_emails()\<close> with no folder: it starts at the root folder of the store.\<close>

definition extract_emails_root :: "analyzer \<Rightarrow> email_data list \<times> analyzer" where
  "extract_emails_root st =
     (case Option.bind (pst_file st) (\<lambda>f. attr (root_folder f)) of
        None \<Rightarrow> ([], logger ERROR Email_extraction_error st)
      | Some root \<Rightarrow> extract_emails root [] (logger INFO Email_extraction_started st))"

subsection \<open>The other item kinds\<close>

text \<open>
  \<open>_find_folder_by_name\<close>: the first folder, in pre-order, whose name equals the wanted
  one up to case. It catches AttributeError and TypeError only: the outer \<open>None\<close> is
  another exception, which propagates to the caller.
\<close>

fun find_folder_by_name :: "string \<Rightarrow> folder \<Rightarrow> folder option option"
  and find_in_sub_folders :: "string \<Rightarrow> folder list \<Rightarrow> folder option option" where
  "find_folder_by_name folder_name (Folder name sub_folders messages) =
     (case getattr_d name [] of
        None \<Rightarrow> None
      | Some folder_name_safe \<Rightarrow>
          if folder_name_safe \<noteq> [] \<and> lower folder_name_safe = lower folder_name
          then Some (Some (Folder name sub_folders messages))
          else (case sub_folders of
                  Missing \<Rightarrow> Some None
                | Fails \<Rightarrow> None
                | Has subs \<Rightarrow> find_in_sub_folders folder_name subs))"
| "find_in_sub_folders folder_name [] = Some None"
| "find_in_sub_folders folder_name (sub_folder # rest) =
     (case find_folder_by_name folder_name sub_folder of
        None \<Rightarrow> None
      | Some (Some found) \<Rightarrow> Some (Some found)
      | Some None \<Rightarrow> find_in_sub_folders folder_name rest)"

definition find_folder_root :: "string \<Rightarrow> analyzer \<Rightarrow> folder option option" where
  "find_folder_root folder_name st =
     (case Option.bind (pst_file st) (\<lambda>f. attr (root_folder f)) of
        None \<Rightarrow> None
      | Some root \<Rightarrow> find_folder_by_name folder_name root)"

text \<open>
  The five extractors share one shape: find the folder, then build one record per
  message, skipping with a warning a message whose reads raise. \<open>extract_items\<close> is
  that shape; the record builders follow, one per kind.
\<close>

fun items_loop ::
  "kind \<Rightarrow> (message \<Rightarrow> 'a option) \<Rightarrow> message list \<Rightarrow> analyzer \<Rightarrow> 'a list \<times> analyzer" where
  "items_loop k build [] st = ([], st)"
| "items_loop k build (m # ms) st =
     (case build m of
        None \<Rightarrow> items_loop k build ms (logger WARNING (Kind_item_error k) st)
      | Some item \<Rightarrow> (let (rest, st1) = items_loop k build ms st in (item # rest, st1)))"

definition extract_items ::
  "kind \<Rightarrow> string \<Rightarrow> (message \<Rightarrow> 'a option) \<Rightarrow> analyzer \<Rightarrow> 'a list \<times> analyzer" where
  "extract_items k folder_name build st =
     (let st0 = logger INFO (Kind_started k) st
      in case find_folder_root folder_name st0 of
           None \<Rightarrow> ([], logger ERROR (Kind_error k) st0)
         | Some None \<Rightarrow> ([], logger WARNING (Kind_folder_missing k) st0)
         | Some (Some found) \<Rightarrow>
             (case f_sub_messages found of
                Has ms \<Rightarrow> items_loop k build ms st0
              | _ \<Rightarrow> ([], logger ERROR (Kind_error k) st0)))"

text \<open>\<^verbatim>\<open>if hasattr(message, 'properties'): for prop in message.properties: pass\<close>\<close>

definition scan_properties :: "message \<Rightarrow> unit option" where
  "scan_properties m = map_option (\<lambda>_. ()) (hasattr (m_properties m))"

definition contact_data_of :: "message \<Rightarrow> contact_data option" where
  "contact_data_of m = do {
     display_name \<leftarrow> getattr_d (m_subject m) [];
     email_address \<leftarrow> getattr_d (m_sender_email_address m) [];
     creation \<leftarrow> getattr_d (m_creation_time m) None;
     modification \<leftarrow> getattr_d (m_modification_time m) None;
     _ \<leftarrow> scan_properties m;
     Some \<lparr>ct_display_name = display_name, ct_email_address = email_address,
       ct_business_phone = [], ct_home_phone = [], ct_mobile_phone = [], ct_company = [],
       ct_job_title = [], ct_creation_time = format_datetime creation,
       ct_modification_time = format_datetime modification\<rparr>
   }"

definition event_data_of :: "message \<Rightarrow> event_data option" where
  "event_data_of m = do {
     subject \<leftarrow> getattr_d (m_subject m) [];
     start \<leftarrow> getattr_d (m_creation_time m) None;
     organizer \<leftarrow> getattr_d (m_sender_name m) [];
     body \<leftarrow> getattr_d (m_plain_text_body m) [];
     importance \<leftarrow> getattr_d (m_importance m) [];
     creation \<leftarrow> getattr_d (m_creation_time m) None;
     _ \<leftarrow> scan_properties m;
     Some \<lparr>ev_subject = subject, ev_location = [], ev_start_time = format_datetime start,
       ev_end_time = [], ev_organizer = organizer, ev_attendees = [], ev_body = body,
       ev_importance = importance, ev_creation_time = format_datetime creation\<rparr>
   }"

definition task_data_of :: "message \<Rightarrow> task_data option" where
  "task_data_of m = do {
     subject \<leftarrow> getattr_d (m_subject m) [];
     body \<leftarrow> getattr_d (m_plain_text_body m) [];
     priority \<leftarrow> getattr_d (m_priority m) [];
     creation \<leftarrow> getattr_d (m_creation_time m) None;
     Some \<lparr>tk_subject = subject, tk_body = body, tk_status = [], tk_priority = priority,
       tk_due_date = [], tk_start_date = [], tk_completion_date = [],
       tk_percent_complete = 0, tk_creation_time = format_datetime creation\<rparr>
   }"

definition note_data_of :: "message \<Rightarrow> note_data option" where
  "note_data_of m = do {
     subject \<leftarrow> getattr_d (m_subject m) [];
     body \<leftarrow> getattr_d (m_plain_text_body m) [];
     creation \<leftarrow> getattr_d (m_creation_time m) None;
     modification \<leftarrow> getattr_d (m_modification_time m) None;
     sz \<leftarrow> getattr_d (m_size m) 0;
     Some \<lparr>nt_subject = subject, nt_body = body, nt_creation_time = format_datetime creation,
       nt_modification_time = format_datetime modification, nt_color = [], nt_size = sz\<rparr>
   }"

definition journal_data_of :: "message \<Rightarrow> journal_data option" where
  "journal_data_of m = do {
     subject \<leftarrow> getattr_d (m_subject m) [];
     body \<leftarrow> getattr_d (m_plain_text_body m) [];
     start \<leftarrow> getattr_d (m_creation_time m) None;
     creation \<leftarrow> getattr_d (m_creation_time m) None;
     Some \<lparr>jr_subject = subject, jr_body = body, jr_entry_type = [],
       jr_start_time = format_datetime start, jr_duration = 0, jr_companies = [],
       jr_contacts = [], jr_creation_time = format_datetime creation\<rparr>
   }"

definition extract_contacts :: "analyzer \<Rightarrow> contact_data list \<times> analyzer" where
  "extract_contacts = extract_items Contacts ''Contacts'' contact_data_of"

definition extract_calendar :: "analyzer \<Rightarrow> event_data list \<times> analyzer" where
  "extract_calendar = extract_items Calendar ''Calendar'' event_data_of"

definition extract_tasks :: "analyzer \<Rightarrow> task_data list \<times> analyzer" where
  "extract_tasks = extract_items Tasks ''Tasks'' task_data_of"

definition extract_notes :: "analyzer \<Rightarrow> note_data list \<times> analyzer" where
  "extract_notes = extract_items Notes ''Notes'' note_data_of"

definition extract_journal :: "analyzer \<Rightarrow> journal_data list \<times> analyzer" where
  "extract_journal = extract_items Journal ''Journal'' journal_data_of"

subsection \<open>Statistics\<close>

text \<open>
  The tally \<^verbatim>\<open>senders[sender] = senders.get(sender, 0) + 1\<close> on a dictionary, which
  keeps its keys in insertion order.
\<close>

fun bump :: "string \<Rightarrow> (string \<times> nat) list \<Rightarrow> (string \<times> nat) list" where
  "bump k [] = [(k, 1)]"
| "bump k ((k', c) # kvs) = (if k = k' then (k', c + 1) # kvs else (k', c) # bump k kvs)"

definition tally_senders :: "email_data list \<Rightarrow> (string \<times> nat) list" where
  "tally_senders emails = fold (\<lambda>email senders. bump (e_sender_email email) senders) emails []"

text \<open>
  \<^verbatim>\<open>sorted(items, key=lambda x: x[1], reverse=True)\<close>: a stable sort by falling count.
\<close>

definition sorted_by_count_desc :: "(string \<times> nat) list \<Rightarrow> (string \<times> nat) list" where
  "sorted_by_count_desc items = sort_key (\<lambda>x. - int (snd x)) items"

definition min_str :: "string \<Rightarrow> string list \<Rightarrow> string" where
  "min_str d ds = fold min ds d"

definition max_str :: "string \<Rightarrow> string list \<Rightarrow> string" where
  "max_str d ds = fold max ds d"

definition generate_statistics :: "analyzer \<Rightarrow> analyzer" where
  "generate_statistics st =
     (let r = results st;
          stats = \<lparr>total_emails = length (r_emails r),
            total_contacts = length (r_contacts r),
            total_calendar_events = length (r_calendar r),
            total_tasks = length (r_tasks r),
            total_notes = length (r_notes r),
            total_journal_entries = length (r_journal r),
            total_attachments = length (r_attachments r),
            analysis_date = isoformat (wall (clock st)),
            pst_file_name = pst_file_path st,
            pst_file_size = (if pst_exists st then pst_stat_size st else 0),
            email_date_range = None, top_senders = None\<rparr>;
          stats1 =
            (if r_emails r \<noteq> [] then
               (let dates = filter (\<lambda>d. d \<noteq> []) (map e_delivery_time (r_emails r));
                    stats2 = (case dates of
                                [] \<Rightarrow> stats
                              | d # ds \<Rightarrow>
                                  stats\<lparr>email_date_range := Some (min_str d ds, max_str d ds)\<rparr>);
                    senders = tally_senders (r_emails r)
                in if senders \<noteq> []
                   then stats2\<lparr>top_senders := Some (take 10 (sorted_by_count_desc senders))\<rparr>
                   else stats2)
             else stats)
      in st\<lparr>results := r\<lparr>r_statistics := Some stats1\<rparr>\<rparr>)"

subsection \<open>Serialization\<close>

definition csv_row_of :: "email_data \<Rightarrow> csv_row" where
  "csv_row_of email = \<lparr>col_id = e_id email, col_folder = e_folder email,
     col_subject = e_subject email, col_sender_name = e_sender_name email,
     col_sender_email = e_sender_email email, col_delivery_time = e_delivery_time email,
     col_size = e_size email, col_attachments_count = length (e_attachments email)\<rparr>"

text \<open>
  \<open>_save_csv_results\<close>: the table is written only when there is an email. The flag is
  \<open>False\<close> when the write raised.
\<close>

definition save_csv_results :: "string \<Rightarrow> analyzer \<Rightarrow> bool \<times> analyzer" where
  "save_csv_results timestamp st =
     (if r_emails (results st) \<noteq> [] then
        (let csv_file = path_join (output_dir st) (''emails_'' @ timestamp @ ''.csv'')
         in case write_file (fs st) csv_file (Table (map csv_row_of (r_emails (results st)))) of
              None \<Rightarrow> (False, st)
            | Some fs1 \<Rightarrow> (True, logger INFO (Csv_saved csv_file) (st\<lparr>fs := fs1\<rparr>)))
      else (True, st))"

text \<open>
  \<open>_clean_for_json\<close> decodes byte strings and prints objects; the results of the model
  hold neither, so it returns them as they are.
\<close>

definition clean_for_json :: "analysis_results \<Rightarrow> analysis_results" where
  "clean_for_json data = data"

text \<open>\<open>save_results()\<close>, with its default format \<^verbatim>\<open>'json'\<close>.\<close>

definition save_results :: "analyzer \<Rightarrow> bool \<times> analyzer" where
  "save_results st =
     (let timestamp = strftime_compact (wall (clock st));
          output_file = path_join (output_dir st) (''pst_analysis_'' @ timestamp @ ''.json'')
      in case write_file (fs st) output_file (Tree_document (clean_for_json (results st))) of
           None \<Rightarrow> (False, st)
         | Some fs1 \<Rightarrow>
             save_csv_results timestamp (logger INFO (Json_saved output_file) (st\<lparr>fs := fs1\<rparr>)))"

subsection \<open>The run\<close>

text \<open>The three optional info lines of \<open>open_pst_file\<close>, inside their own \<^verbatim>\<open>try\<close>.\<close>

definition log_file_info :: "pff_file \<Rightarrow> analyzer \<Rightarrow> analyzer" where
  "log_file_info f st =
     (case hasattr (format_version f) of
        None \<Rightarrow> logger DEBUG Pst_info_unavailable st
      | Some _ \<Rightarrow>
          (let st1 = (case format_version f of
                        Has v \<Rightarrow> logger INFO (Pst_format v) st | _ \<Rightarrow> st)
           in case hasattr (content_type f) of
                None \<Rightarrow> logger DEBUG Pst_info_unavailable st1
              | Some _ \<Rightarrow>
                  (let st2 = (case content_type f of
                                Has v \<Rightarrow> logger INFO (Pst_content_type v) st1 | _ \<Rightarrow> st1)
                   in case file_size f of
                        Missing \<Rightarrow> st2
                      | Fails \<Rightarrow> logger DEBUG Pst_info_unavailable st2
                      | Has n \<Rightarrow> logger INFO (Pst_size n) st2)))"

text \<open>
  A decoder object on which \<^verbatim>\<open>open\<close> raised: the analyzer keeps it in \<open>pst_file\<close>, and
  nothing can be read from it.
\<close>

definition unopened :: pff_file where
  "unopened = \<lparr>root_folder = Fails, format_version = Fails, content_type = Fails,
     file_size = Fails\<rparr>"

definition open_pst_file :: "analyzer \<Rightarrow> bool \<times> analyzer" where
  "open_pst_file st =
     (if \<not> pst_exists st then (False, logger ERROR Pst_not_found st)
      else case container st of
             None \<Rightarrow> (False, logger ERROR Pst_open_failed (st\<lparr>pst_file := Some unopened\<rparr>))
           | Some f \<Rightarrow>
               (True, log_file_info f
                  (logger INFO Pst_opened (st\<lparr>pst_file := Some f, pst_open := True\<rparr>))))"

definition close_pst_file :: "analyzer \<Rightarrow> analyzer" where
  "close_pst_file st =
     (case pst_file st of
        None \<Rightarrow> st
      | Some f \<Rightarrow> logger INFO Pst_closed (st\<lparr>pst_open := False\<rparr>))"

text \<open>
  \<open>perform_full_analysis\<close>. The extractors and \<open>generate_statistics\<close> return without
  raising; \<open>save_results\<close> can raise on a write, which the outer \<^verbatim>\<open>except\<close> turns into
  \<open>False\<close>.
\<close>

definition extract_all :: "analyzer \<Rightarrow> analyzer" where
  "extract_all st =
     (let (emails, st1) = extract_emails_root st;
          st1 = st1\<lparr>results := (results st1)\<lparr>r_emails := emails\<rparr>\<rparr>;
          (contacts, st2) = extract_contacts st1;
          st2 = st2\<lparr>results := (results st2)\<lparr>r_contacts := contacts\<rparr>\<rparr>;
          (calendar, st3) = extract_calendar st2;
          st3 = st3\<lparr>results := (results st3)\<lparr>r_calendar := calendar\<rparr>\<rparr>;
          (tasks, st4) = extract_tasks st3;
          st4 = st4\<lparr>results := (results st4)\<lparr>r_tasks := tasks\<rparr>\<rparr>;
          (notes, st5) = extract_notes st4;
          st5 = st5\<lparr>results := (results st5)\<lparr>r_notes := notes\<rparr>\<rparr>;
          (journal, st6) = extract_journal st5
      in st6\<lparr>results := (results st6)\<lparr>r_journal := journal\<rparr>\<rparr>)"

definition perform_full_analysis :: "analyzer \<Rightarrow> bool \<times> analyzer" where
  "perform_full_analysis st =
     (case open_pst_file (logger INFO Analysis_started st) of
        (False, st1) \<Rightarrow> (False, st1)
      | (True, st1) \<Rightarrow>
          (case save_results (generate_statistics (extract_all st1)) of
             (False, st2) \<Rightarrow> (False, close_pst_file (logger ERROR Analysis_error st2))
           | (True, st2) \<Rightarrow>
               (True, logger INFO (Output_files (output_dir st2))
                  (logger INFO Analysis_done (close_pst_file st2)))))"

text \<open>
  \<open>PSTAnalyzer(pst_file_path, output_dir)\<close> in a given world: the output directory is
  made, the results are empty, no store is open. \<open>None\<close>: the constructor raised.
\<close>

definition new_analyzer ::
  "string \<Rightarrow> path \<Rightarrow> bool \<Rightarrow> nat \<Rightarrow> pff_file option \<Rightarrow> filesystem \<Rightarrow> clock_reading \<Rightarrow>
     analyzer option" where
  "new_analyzer path out_dir file_exists stat_size pff world now =
     map_option (\<lambda>fs1. \<lparr>pst_file_path = path, pst_exists = file_exists,
         pst_stat_size = stat_size, container = pff, output_dir = out_dir, pst_file = None,
         pst_open = False, results = empty_results, log = [], fs = fs1, clock = now\<rparr>)
       (mkdir_parents world out_dir)"

text \<open>\<open>analyze_pst_file\<close>: a fresh analyzer, then the full analysis.\<close>

definition analyze_pst_file ::
  "string \<Rightarrow> path \<Rightarrow> bool \<Rightarrow> nat \<Rightarrow> pff_file option \<Rightarrow> filesystem \<Rightarrow> clock_reading \<Rightarrow>
     (bool \<times> analyzer) option" where
  "analyze_pst_file path out_dir file_exists stat_size pff world now =
     map_option perform_full_analysis
       (new_analyzer path out_dir file_exists stat_size pff world now)"

section \<open>Example stores\<close>

text \<open>Small concrete stores and worlds, on which the properties below are evaluated.\<close>

definition blank_message :: message where
  "blank_message = \<lparr>m_subject = Missing, m_sender_name = Missing,
     m_sender_email_address = Missing, m_plain_text_body = Missing, m_html_body = Missing,
     m_delivery_time = Missing, m_creation_time = Missing, m_modification_time = Missing,
     m_size = Missing, m_message_class = Missing, m_priority = Missing,
     m_importance = Missing, m_categories = Missing, m_is_read = Missing,
     m_recipients = Missing, m_attachments = Missing, m_properties = Missing\<rparr>"

text \<open>A message on which every attribute read raises.\<close>

definition raising_message :: message where
  "raising_message = \<lparr>m_subject = Fails, m_sender_name = Fails,
     m_sender_email_address = Fails, m_plain_text_body = Fails, m_html_body = Fails,
     m_delivery_time = Fails, m_creation_time = Fails, m_modification_time = Fails,
     m_size = Fails, m_message_class = Fails, m_priority = Fails,
     m_importance = Fails, m_categories = Fails, m_is_read = Fails,
     m_recipients = Fails, m_attachments = Fails, m_properties = Fails\<rparr>"

definition mail :: "string \<Rightarrow> string \<Rightarrow> message" where
  "mail subject sender =
     blank_message\<lparr>m_subject := Has subject, m_sender_email_address := Has sender\<rparr>"

definition file_named :: "string \<Rightarrow> string \<Rightarrow> raw_attachment" where
  "file_named name data = \<lparr>a_name = Has (Some name), a_size = Has (length data),
     a_attachment_type = Missing, a_data = Has data\<rparr>"


definition clock0 :: clock_reading where
  "clock0 = \<lparr>wall = \<lparr>year = 2024, month = 1, day = 2, hour = 3, minute = 4, second = 5,
     microsecond = 0\<rparr>, posix_seconds = 1704164645, posix_micros = 0\<rparr>"

definition world0 :: filesystem where
  "world0 = \<lparr>dirs = {[''out'']}, files = Map.empty, denied = {}\<rparr>"

definition store :: "folder \<Rightarrow> pff_file" where
  "store root = \<lparr>root_folder = Has root, format_version = Missing, content_type = Missing,
     file_size = Missing\<rparr>"

definition analyzer0 :: "pff_file option \<Rightarrow> analyzer" where
  "analyzer0 pff = \<lparr>pst_file_path = ''mail.pst'', pst_exists = True, pst_stat_size = 1024,
     container = pff, output_dir = [''out''], pst_file = None, pst_open = False,
     results = empty_results, log = [], fs = world0, clock = clock0\<rparr>"

definition opened :: "folder \<Rightarrow> analyzer" where
  "opened root =
     (analyzer0 (Some (store root)))\<lparr>pst_file := Some (store root), pst_open := True\<rparr>"

text \<open>The tree root \<open>\<rightarrow>\<close> [A, B] with A \<open>\<rightarrow>\<close> [A1], one message in each of A, A1 and B.\<close>

definition tree_AB :: folder where
  "tree_AB = Folder (Has ''root'')
     (Has [Folder (Has ''A'')
             (Has [Folder (Has ''A1'') (Has []) (Has [mail ''a1'' ''x@y''])])
             (Has [mail ''a'' ''x@y'']),
           Folder (Has ''B'') (Has []) (Has [mail ''b'' ''x@y''])])
     (Has [])"

definition empty_store :: folder where
  "empty_store = Folder (Has ''root'') (Has []) (Has [])"





section \<open>Reference orders\<close>

text \<open>
  Two listings of the messages of a folder tree, each message with the path of its
  folder. \<open>pre_order\<close> lists a folder's own messages before those of its sub-folders;
  \<open>post_order\<close> lists the sub-folders' messages first, sub-folder by sub-folder in the
  order of the store, and the folder's own messages last.
\<close>

definition child_path :: "string \<Rightarrow> string \<Rightarrow> string" where
  "child_path parent sub_name = (if parent \<noteq> [] then parent @ ''/'' @ sub_name else sub_name)"

fun pre_order :: "folder \<Rightarrow> string \<Rightarrow> (string \<times> message) list"
  and pre_order_list :: "folder list \<Rightarrow> string \<Rightarrow> (string \<times> message) list" where
  "pre_order (Folder name sub_folders messages) path =
     (case messages of Has ms \<Rightarrow> map (Pair path) ms | _ \<Rightarrow> []) @
     (case sub_folders of Has subs \<Rightarrow> pre_order_list subs path | _ \<Rightarrow> [])"
| "pre_order_list [] parent = []"
| "pre_order_list (sub_folder # rest) parent =
     (case f_name sub_folder of
        Has sub_name \<Rightarrow> pre_order sub_folder (child_path parent sub_name)
      | _ \<Rightarrow> []) @
     pre_order_list rest parent"







section \<open>What a run may change\<close>

text \<open>
  The notions the frame properties are stated with: a name that is one path component,
  the messages of a tree, the setup of an analyzer (all that a run never changes), a file
  system that changed only below one directory, and an output directory that exists.
\<close>

definition plain_name :: "string \<Rightarrow> bool" where
  "plain_name s = (s \<noteq> [] \<and> s \<noteq> ''.'' \<and> s \<noteq> ''..'' \<and> CHR ''/'' \<notin> set s)"



definition same_setup :: "analyzer \<Rightarrow> analyzer \<Rightarrow> bool" where
  "same_setup st st' =
     (pst_file_path st' = pst_file_path st \<and> pst_exists st' = pst_exists st \<and>
      pst_stat_size st' = pst_stat_size st \<and> container st' = container st \<and>
      output_dir st' = output_dir st \<and> pst_file st' = pst_file st \<and>
      pst_open st' = pst_open st \<and> clock st' = clock st)"

definition confined :: "path \<Rightarrow> filesystem \<Rightarrow> filesystem \<Rightarrow> bool" where
  "confined A world world' =
     (denied world' = denied world \<and> (\<forall>q. is_dir world q \<longrightarrow> is_dir world' q) \<and>
      (\<forall>q. \<not> prefix A q \<longrightarrow>
         (is_dir world' q \<longrightarrow> is_dir world q) \<and> files world' q = files world q))"

definition attachments_area :: "analyzer \<Rightarrow> path" where
  "attachments_area st = resolve (output_dir st) @ [''attachments'']"

definition made :: "analyzer \<Rightarrow> bool" where
  "made st = (\<forall>d \<in> set (prefixes (output_dir st)). is_dir (fs st) (resolve d))"

definition evolves :: "analyzer \<Rightarrow> analyzer \<Rightarrow> bool" where
  "evolves st st' =
     (same_setup st st' \<and> prefix (log st) (log st') \<and>
      confined (attachments_area st) (fs st) (fs st'))"

section \<open>Properties\<close>

subsection \<open>File names\<close>

lemma keep_space_only: "keep_char c \<Longrightarrow> isspace c \<Longrightarrow> c = CHR '' ''"
  by (auto simp: keep_char_def isspace_def isalnum_def Let_def)

lemma rstrip_kept:
  assumes "\<forall>c\<in>set s. keep_char c"
  shows "\<exists>k. s = rstrip s @ replicate k (CHR '' '')"
proof -
  have "rev s = takeWhile isspace (rev s) @ dropWhile isspace (rev s)" by simp
  then have "s = rev (dropWhile isspace (rev s)) @ rev (takeWhile isspace (rev s))"
    by (metis rev_append rev_rev_ident)
  moreover have "\<forall>c\<in>set (takeWhile isspace (rev s)). c = CHR '' ''"
    using assms keep_space_only by (metis set_rev set_takeWhileD)
  then have "rev (takeWhile isspace (rev s)) =
      replicate (length (takeWhile isspace (rev s))) (CHR '' '')"
    by (metis (no_types, lifting) length_rev replicate_eqI set_rev)
  ultimately show ?thesis unfolding rstrip_def by metis
qed

lemma rstrip_last: "rstrip s \<noteq> [] \<Longrightarrow> last (rstrip s) \<noteq> CHR '' ''"
proof -
  assume a: "rstrip s \<noteq> []"
  then have ne: "dropWhile isspace (rev s) \<noteq> []" by (simp add: rstrip_def)
  then have "\<not> isspace (hd (dropWhile isspace (rev s)))" by (rule hd_dropWhile)
  moreover have "last (rstrip s) = hd (dropWhile isspace (rev s))"
    using ne by (simp add: rstrip_def last_rev)
  moreover have "isspace (CHR '' '')" by (simp add: isspace_def)
  ultimately show ?thesis by metis
qed

lemma safe_filename_kept:
  "\<exists>t k. filter (\<lambda>c. isalnum c \<or> c \<in> {CHR '' '', CHR ''-'', CHR ''_'', CHR ''.''}) filename
            = t @ replicate k (CHR '' '') \<and>
         (t = [] \<or> last t \<noteq> CHR '' '') \<and>
         safe_filename filename index = (if t = [] then ''attachment_'' @ show_nat index else t)"
proof -
  let ?kept = "filter keep_char filename"
  have "\<forall>c\<in>set ?kept. keep_char c" by simp
  then obtain k where k: "?kept = rstrip ?kept @ replicate k (CHR '' '')"
    using rstrip_kept by blast
  have l: "rstrip ?kept = [] \<or> last (rstrip ?kept) \<noteq> CHR '' ''"
    using rstrip_last by blast
  have "safe_filename filename index =
      (if rstrip ?kept = [] then ''attachment_'' @ show_nat index else rstrip ?kept)"
    by (simp add: safe_filename_def Let_def)
  with k l show ?thesis unfolding keep_char_def by blast
qed

lemma safe_filename_fallback:
  assumes "\<forall>c\<in>set filename. \<not> (isalnum c \<or> c \<in> {CHR '' '', CHR ''-'', CHR ''_'', CHR ''.''})"
  shows "safe_filename filename index = ''attachment_'' @ show_nat index"
proof -
  have "filter keep_char filename = []"
    using assms by (simp add: keep_char_def filter_empty_conv)
  then show ?thesis by (simp add: safe_filename_def rstrip_def)
qed

lemma safe_filename_example: "safe_filename ''a:b*c.txt'' index = ''abc.txt''"
  by (simp add: safe_filename_def keep_char_def isalnum_def rstrip_def isspace_def Let_def)

text \<open>
  C5. The sanitized name is the sequence of the characters of the declared name that are
  alphanumeric or one of space, hyphen, underscore and dot, in their order, without the
  spaces at its end; when nothing is left it is \<open>attachment_<index>\<close>. So a name of
  disallowed characters only gives \<open>attachment_<index>\<close>, and \<open>a:b*c.txt\<close> gives
  \<open>abc.txt\<close>.
\<close>

theorem safe_filename_sanitizes:
  "(\<exists>t k. filter (\<lambda>c. isalnum c \<or> c \<in> {CHR '' '', CHR ''-'', CHR ''_'', CHR ''.''}) filename
            = t @ replicate k (CHR '' '') \<and>
          (t = [] \<or> last t \<noteq> CHR '' '') \<and>
          safe_filename filename index =
            (if t = [] then ''attachment_'' @ show_nat index else t)) \<and>
   ((\<forall>c\<in>set filename. \<not> (isalnum c \<or> c \<in> {CHR '' '', CHR ''-'', CHR ''_'', CHR ''.''})) \<longrightarrow>
      safe_filename filename index = ''attachment_'' @ show_nat index) \<and>
   safe_filename ''a:b*c.txt'' index = ''abc.txt''"
  using safe_filename_kept [of filename index] safe_filename_fallback [of filename index]
    safe_filename_example [of index]
  by blast

theorem safe_filename_sanitizes_witness:
  "safe_filename '':*?/'' 7 = ''attachment_7'' \<and> safe_filename ''a:b*c.txt'' 7 = ''abc.txt''"
proof -
  have d: "\<forall>c\<in>set '':*?/''. \<not> (isalnum c \<or> c \<in> {CHR '' '', CHR ''-'', CHR ''_'', CHR ''.''})"
    by (simp add: isalnum_def)
  have "show_nat 7 = ''7''" by (simp add: show_nat.simps)
  with d safe_filename_sanitizes [of "'':*?/''" 7] show ?thesis by simp
qed

subsection \<open>Statistics\<close>











subsection \<open>Identity\<close>

lemma md5_digest_length: "length (md5_digest data) = 16"
proof -
  obtain a b c d where
    "fold (\<lambda>blk h. md5_block h (le_words blk)) (chunks 64 (md5_pad data))
       (0x67452301, 0xefcdab89, 0x98badcfe, 0x10325476) = (a, b, c, d)"
    by (metis prod_cases4)
  then show ?thesis by (simp add: md5_digest_def le_bytes_def)
qed

lemma hex_digit_range: "n < 16 \<Longrightarrow> hex_digit n \<in> set ''0123456789abcdef''"
  unfolding hex_digit_def by (rule nth_mem) simp

lemma hexdigest_length: "length (hexdigest bs) = 2 * length bs"
  by (induction bs) (simp_all add: hexdigest_def)

lemma hexdigest_chars: "set (hexdigest bs) \<subseteq> set ''0123456789abcdef''"
proof -
  have "\<And>b::byte. unat b div 16 < 16"
  proof -
    fix b :: byte
    have "unat b < 2 ^ LENGTH(8)" by (rule unsigned_less)
    then have "unat b < 256" by simp
    then show "unat b div 16 < 16" by simp
  qed
  then have "\<And>b::byte. hex_digit (unat b div 16) \<in> set ''0123456789abcdef''"
    by (rule hex_digit_range)
  moreover have "\<And>b::byte. hex_digit (unat b mod 16) \<in> set ''0123456789abcdef''"
    by (rule hex_digit_range) simp
  ultimately show ?thesis unfolding hexdigest_def by auto
qed

lemma md5_hexdigest_length: "length (md5_hexdigest data) = 32"
  by (simp add: md5_hexdigest_def hexdigest_length md5_digest_length)

lemma md5_hexdigest_chars: "set (md5_hexdigest data) \<subseteq> set ''0123456789abcdef''"
  unfolding md5_hexdigest_def by (rule hexdigest_chars)

text \<open>The text the id is hashed from, when the three reads succeed.\<close>

lemma generate_email_id_hash:
  assumes "m_subject m \<noteq> Fails" and "m_sender_email_address m \<noteq> Fails"
    and "m_creation_time m \<noteq> Fails"
  shows "generate_email_id m st =
     take 16 (md5_hexdigest (encode
       (the (getattr_d (m_subject m) []) @ the (getattr_d (m_sender_email_address m) []) @
        the (getattr_d (map_access fmt_time (m_creation_time m)) []))))"
  using assms
  by (cases "m_subject m"; cases "m_sender_email_address m"; cases "m_creation_time m")
     (simp_all add: generate_email_id_def getattr_d_def)

lemma generate_email_id_fallback:
  assumes "m_subject m = Fails \<or> m_sender_email_address m = Fails \<or> m_creation_time m = Fails"
  shows "generate_email_id m st = ''email_'' @ timestamp_str (clock st)"
  using assms
  by (cases "m_subject m"; cases "m_sender_email_address m"; cases "m_creation_time m")
     (simp_all add: generate_email_id_def getattr_d_def)




subsection \<open>Traversal order\<close>







lemmas example_defs = blank_message_def raising_message_def mail_def clock0_def world0_def
  store_def analyzer0_def opened_def tree_AB_def empty_store_def file_named_def







subsection \<open>Frame of the extraction\<close>

lemma confined_refl: "confined A w w"
  by (simp add: confined_def)

lemma confined_trans:
  assumes "confined A w1 w2" and "confined A w2 w3"
  shows "confined A w1 w3"
proof -
  have 1: "denied w3 = denied w1" using assms by (simp add: confined_def)
  have 2: "\<forall>q. is_dir w1 q \<longrightarrow> is_dir w3 q" using assms unfolding confined_def by blast
  have 3: "\<forall>q. \<not> prefix A q \<longrightarrow> (is_dir w3 q \<longrightarrow> is_dir w1 q) \<and> files w3 q = files w1 q"
    using assms unfolding confined_def by metis
  from 1 2 3 show ?thesis by (simp add: confined_def)
qed

lemma evolves_refl: "evolves st st"
  by (simp add: evolves_def same_setup_def confined_refl)

lemma evolves_trans:
  assumes a: "evolves st1 st2" and b: "evolves st2 st3"
  shows "evolves st1 st3"
proof -
  have s: "same_setup st1 st3"
    using a b by (simp add: evolves_def same_setup_def)
  have area: "attachments_area st2 = attachments_area st1"
    using a by (simp add: evolves_def same_setup_def attachments_area_def)
  have "prefix (log st1) (log st2)" using a by (simp add: evolves_def)
  moreover have "prefix (log st2) (log st3)" using b by (simp add: evolves_def)
  ultimately have l: "prefix (log st1) (log st3)" by (rule prefix_order.order_trans)
  have "confined (attachments_area st1) (fs st1) (fs st2)" using a by (simp add: evolves_def)
  moreover have "confined (attachments_area st1) (fs st2) (fs st3)"
    using b area by (simp add: evolves_def)
  ultimately have c: "confined (attachments_area st1) (fs st1) (fs st3)"
    by (rule confined_trans)
  from s l c show ?thesis by (simp add: evolves_def)
qed

lemma evolves_logger: "evolves st (logger l e st)"
  by (simp add: evolves_def same_setup_def logger_def confined_refl attachments_area_def)

lemma evolves_made:
  assumes "evolves st st'" and "made st"
  shows "made st'"
proof -
  have o: "output_dir st' = output_dir st"
    using assms(1) by (simp add: evolves_def same_setup_def)
  have d: "\<forall>q. is_dir (fs st) q \<longrightarrow> is_dir (fs st') q"
    using assms(1) by (simp add: evolves_def confined_def)
  show ?thesis
    unfolding made_def o
  proof
    fix x assume "x \<in> set (prefixes (output_dir st))"
    then have "is_dir (fs st) (resolve x)" using assms(2) by (simp add: made_def)
    then show "is_dir (fs st') (resolve x)" using d by simp
  qed
qed

lemma evolves_results: "evolves st (st\<lparr>results := r\<rparr>)"
  by (simp add: evolves_def same_setup_def confined_refl attachments_area_def)

lemma split_slash_plain: "CHR ''/'' \<notin> set s \<Longrightarrow> split_slash s = [s]"
  by (induction s) (auto simp: Let_def)

lemma parts_plain: "CHR ''/'' \<notin> set s \<Longrightarrow> s \<noteq> [] \<Longrightarrow> s \<noteq> ''.'' \<Longrightarrow> parts s = [s]"
  by (simp add: parts_def split_slash_plain)

lemma parts_dot: "parts ''.'' = []"
  by (simp add: parts_def Let_def)

lemma path_join_plain:
  "CHR ''/'' \<notin> set s \<Longrightarrow> s \<noteq> [] \<Longrightarrow> s \<noteq> ''.'' \<Longrightarrow> path_join p s = p @ [s]"
  by (cases s) (auto simp: path_join_def parts_plain)

lemma resolve_from_snoc:
  "resolve_from acc (xs @ [c]) =
     (if c = ''..'' then butlast (resolve_from acc xs) else resolve_from acc xs @ [c])"
  by (induction xs arbitrary: acc) auto

lemma resolve_snoc:
  "resolve (xs @ [c]) = (if c = ''..'' then butlast (resolve xs) else resolve xs @ [c])"
  by (simp add: resolve_def resolve_from_snoc)

lemma show_nat_digits: "set (show_nat n) \<subseteq> set ''0123456789''"
proof (induction n rule: show_nat.induct)
  case (1 n)
  have d: "\<And>k. k < 10 \<Longrightarrow> ''0123456789'' ! k \<in> set ''0123456789''"
    by (rule nth_mem) simp
  show ?case
  proof (cases "n < 10")
    case True
    then show ?thesis using d [of n] by (subst show_nat.simps) simp
  next
    case False
    have "n mod 10 < 10" by simp
    then have "''0123456789'' ! (n mod 10) \<in> set ''0123456789''" by (rule d)
    with False 1 show ?thesis by (subst show_nat.simps) simp
  qed
qed

lemma show_nat_nonempty: "show_nat n \<noteq> []"
  by (subst show_nat.simps) simp

lemma keep_char_no_slash: "\<not> keep_char (CHR ''/'')"
  by (simp add: keep_char_def isalnum_def)

lemma safe_filename_no_slash: "CHR ''/'' \<notin> set (safe_filename filename index)"
proof -
  have 1: "CHR ''/'' \<notin> set (rstrip (filter keep_char filename))"
  proof
    assume "CHR ''/'' \<in> set (rstrip (filter keep_char filename))"
    then have "CHR ''/'' \<in> set (filter keep_char filename)"
      unfolding rstrip_def using set_dropWhileD by fastforce
    then show False using keep_char_no_slash by simp
  qed
  have 2: "CHR ''/'' \<notin> set (''attachment_'' @ show_nat index)"
    using show_nat_digits [of index] by auto
  from 1 2 show ?thesis by (simp add: safe_filename_def Let_def)
qed

lemma safe_filename_nonempty: "safe_filename filename index \<noteq> []"
  by (simp add: safe_filename_def Let_def)

lemma generate_email_id_plain: "plain_name (generate_email_id m st)"
proof (cases "m_subject m = Fails \<or> m_sender_email_address m = Fails \<or> m_creation_time m = Fails")
  case True
  then have e: "generate_email_id m st = ''email_'' @ timestamp_str (clock st)"
    by (rule generate_email_id_fallback)
  have "CHR ''/'' \<notin> set (timestamp_str (clock st))"
    using show_nat_digits [of "posix_seconds (clock st)"] show_nat_digits [of "posix_micros (clock st)"]
    by (auto simp: timestamp_str_def)
  then show ?thesis by (simp add: e plain_name_def)
next
  case False
  then have r: "m_subject m \<noteq> Fails" "m_sender_email_address m \<noteq> Fails" "m_creation_time m \<noteq> Fails"
    by simp_all
  obtain x where e: "generate_email_id m st = take 16 (md5_hexdigest x)"
    using generate_email_id_hash [OF r] by blast
  have l: "length (generate_email_id m st) = 16" by (simp add: e md5_hexdigest_length)
  have "set (generate_email_id m st) \<subseteq> set ''0123456789abcdef''"
    unfolding e using md5_hexdigest_chars set_take_subset by fast
  then have "CHR ''/'' \<notin> set (generate_email_id m st)" by auto
  moreover have "generate_email_id m st \<noteq> []" "generate_email_id m st \<noteq> ''.''"
    "generate_email_id m st \<noteq> ''..''"
    using l by auto
  ultimately show ?thesis by (simp add: plain_name_def)
qed


lemma mkdir_parents_effect:
  "mkdir_parents w p = Some w' \<Longrightarrow>
   denied w' = denied w \<and> files w' = files w \<and> dirs w' = dirs w \<union> set (map resolve (prefixes p))"
  by (auto simp: mkdir_parents_def Let_def split: if_splits)

lemma write_file_effect:
  "write_file w p c = Some w' \<Longrightarrow>
   denied w' = denied w \<and> dirs w' = dirs w \<and> files w' = (files w)(resolve p \<mapsto> c) \<and>
   \<not> is_dir w (resolve p)"
  by (auto simp: write_file_def Let_def split: if_splits)

lemma owner_dir_resolved:
  "plain_name email_id \<Longrightarrow>
   resolve (out @ [''attachments'', email_id]) = resolve out @ [''attachments'', email_id]"
proof -
  assume "plain_name email_id"
  then have n: "email_id \<noteq> ''..''" by (simp add: plain_name_def)
  have "resolve (out @ [''attachments'', email_id]) = resolve ((out @ [''attachments'']) @ [email_id])"
    by simp
  also have "\<dots> = resolve (out @ [''attachments'']) @ [email_id]"
    using n by (simp only: resolve_snoc if_False)
  also have "resolve (out @ [''attachments'']) = resolve out @ [''attachments'']"
    by (simp only: resolve_snoc) simp
  finally show ?thesis by simp
qed

lemma mkdir_owner_evolves:
  assumes m: "made st" and p: "plain_name email_id"
    and k: "mkdir_parents (fs st) (output_dir st @ [''attachments'', email_id]) = Some fs1"
  shows "evolves st (st\<lparr>fs := fs1\<rparr>)"
proof -
  let ?A = "attachments_area st"
  have e: "denied fs1 = denied (fs st)" "files fs1 = files (fs st)"
    "dirs fs1 = dirs (fs st) \<union> set (map resolve (prefixes (output_dir st @ [''attachments'', email_id])))"
    using mkdir_parents_effect [OF k] by simp_all
  have pre: "prefixes (output_dir st @ [''attachments'', email_id]) =
      prefixes (output_dir st) @ [output_dir st @ [''attachments''],
        output_dir st @ [''attachments'', email_id]]"
    using prefixes_snoc [of "output_dir st @ [''attachments'']" email_id]
      prefixes_snoc [of "output_dir st" "''attachments''"] by simp
  have r1: "resolve (output_dir st @ [''attachments'']) = ?A"
    by (simp only: resolve_snoc attachments_area_def) simp
  have r2: "resolve (output_dir st @ [''attachments'', email_id]) = ?A @ [email_id]"
    using owner_dir_resolved [OF p] by (simp add: attachments_area_def)
  have new: "dirs fs1 = dirs (fs st) \<union> resolve ` set (prefixes (output_dir st)) \<union> {?A, ?A @ [email_id]}"
    unfolding e(3) pre using r1 r2 by auto
  have old: "\<forall>d \<in> resolve ` set (prefixes (output_dir st)). is_dir (fs st) d"
    using m by (auto simp: made_def)
  have c: "confined ?A (fs st) fs1"
    unfolding confined_def
  proof (intro conjI allI impI)
    show "denied fs1 = denied (fs st)" by (rule e(1))
  next
    fix q assume "is_dir (fs st) q"
    then show "is_dir fs1 q" using new by (auto simp: is_dir_def)
  next
    fix q assume np: "\<not> prefix ?A q" and d: "is_dir fs1 q"
    have "q \<noteq> ?A" "q \<noteq> ?A @ [email_id]" using np by auto
    with d new old show "is_dir (fs st) q" by (auto simp: is_dir_def)
  next
    fix q show "files fs1 q = files (fs st) q" by (simp add: e(2))
  qed
  then show ?thesis
    by (simp add: evolves_def same_setup_def attachments_area_def)
qed

lemma write_owner_evolves:
  assumes p: "plain_name email_id" and s: "CHR ''/'' \<notin> set safe" "safe \<noteq> []"
    and w: "write_file (fs st) (path_join (output_dir st @ [''attachments'', email_id]) safe) c
            = Some fs2"
  shows "evolves st (st\<lparr>fs := fs2\<rparr>)"
proof -
  let ?A = "attachments_area st"
  let ?D = "output_dir st @ [''attachments'', email_id]"
  let ?q = "resolve (path_join ?D safe)"
  have rD: "resolve ?D = ?A @ [email_id]"
    using owner_dir_resolved [OF p] by (simp add: attachments_area_def)
  have pq: "prefix ?A ?q"
  proof (cases "safe = ''.''")
    case True
    then have "path_join ?D safe = ?D" by (simp add: path_join_def parts_dot)
    then show ?thesis using rD by simp
  next
    case False
    then have j: "path_join ?D safe = ?D @ [safe]" using s by (simp add: path_join_plain)
    show ?thesis
    proof (cases "safe = ''..''")
      case True
      then have "?q = butlast (resolve ?D)" unfolding j using resolve_snoc [of ?D safe] by simp
      then show ?thesis using rD by simp
    next
      case False
      then have "?q = resolve ?D @ [safe]" unfolding j using resolve_snoc [of ?D safe] by simp
      then show ?thesis using rD by simp
    qed
  qed
  have e: "denied fs2 = denied (fs st)" "dirs fs2 = dirs (fs st)"
    "files fs2 = (files (fs st))(?q \<mapsto> c)"
    using write_file_effect [OF w] by simp_all
  have "confined ?A (fs st) fs2"
    unfolding confined_def using e pq by (auto simp: is_dir_def)
  then show ?thesis
    by (simp add: evolves_def same_setup_def attachments_area_def)
qed

lemma save_attachment_evolves:
  assumes m: "made st" and p: "plain_name email_id"
  shows "evolves st (snd (save_attachment a email_id index st))"
proof -
  let ?D = "output_dir st @ [''attachments'', email_id]"
  have D: "path_join (path_join (output_dir st) ''attachments'') email_id = ?D"
    using p by (simp add: path_join_plain plain_name_def)
  show ?thesis
  proof (cases "mkdir_parents (fs st) ?D")
    case None
    then show ?thesis by (simp add: save_attachment_def D evolves_logger)
  next
    case (Some fs1)
    let ?st1 = "st\<lparr>fs := fs1\<rparr>"
    have e1: "evolves st ?st1" using mkdir_owner_evolves [OF m p Some] .
    have lg: "\<And>l e. evolves st (logger l e ?st1)"
      using e1 evolves_logger evolves_trans by blast
    show ?thesis
    proof (cases "getattr_d (a_name a) (Some (''attachment_'' @ show_nat index))")
      case None
      then show ?thesis using Some lg by (simp add: save_attachment_def D)
    next
      case outer: (Some nm)
      show ?thesis
      proof (cases nm)
        case None
        then show ?thesis using Some outer lg by (simp add: save_attachment_def D)
      next
        case inner: (Some filename)
        let ?safe = "safe_filename filename index"
        show ?thesis
        proof (cases "a_data a")
          case Missing
          then show ?thesis using Some outer inner e1 by (simp add: save_attachment_def D)
        next
          case Fails
          then show ?thesis using Some outer inner lg by (simp add: save_attachment_def D)
        next
          case (Has data)
          show ?thesis
          proof (cases "data = []")
            case True
            then show ?thesis using Some outer inner Has e1 by (simp add: save_attachment_def D)
          next
            case False
            show ?thesis
            proof (cases "write_file fs1 (path_join ?D ?safe) (Payload data)")
              case None
              then show ?thesis
                using Some outer inner Has False lg by (simp add: save_attachment_def D)
            next
              case w: (Some fs2)
              have "evolves ?st1 (?st1\<lparr>fs := fs2\<rparr>)"
                using write_owner_evolves [of email_id ?safe ?st1 "Payload data" fs2]
                  p safe_filename_no_slash safe_filename_nonempty w by simp
              then have "evolves st (?st1\<lparr>fs := fs2\<rparr>)" using e1 evolves_trans by blast
              then show ?thesis
                using Some outer inner Has False w by (simp add: save_attachment_def D)
            qed
          qed
        qed
      qed
    qed
  qed
qed



lemma logger_debug: "logger DEBUG e st = st"
  by (simp add: logger_def)


lemma attachments_loop_evolves:
  "made st \<Longrightarrow> plain_name email_id \<Longrightarrow>
   evolves st (snd (snd (attachments_loop as i email_id st)))"
proof (induction as arbitrary: i st)
  case Nil
  then show ?case by (simp add: evolves_refl)
next
  case (Cons a as)
  show ?case
  proof (cases "do {
          name \<leftarrow> getattr_d (a_name a) (Some (''attachment_'' @ show_nat i));
          sz \<leftarrow> getattr_d (a_size a) 0;
          ty \<leftarrow> getattr_d (a_attachment_type a) [];
          Some (name, sz, ty)
        }")
    case None
    then show ?thesis by (simp add: evolves_refl)
  next
    case (Some t)
    obtain name sz ty where t: "t = (name, sz, ty)" by (cases t) auto
    obtain saved st1 where sv: "save_attachment a email_id i st = (saved, st1)" by force
    let ?d = "\<lparr>att_email_id = email_id, att_index = i, att_name = name,
                 att_size = sz, att_type = ty, att_saved_path = saved\<rparr>"
    let ?st2 = "st1\<lparr>results := (results st1)
                 \<lparr>r_attachments := r_attachments (results st1) @ [?d]\<rparr>\<rparr>"
    have e1: "evolves st st1" using save_attachment_evolves [OF Cons.prems, of a i] sv by simp
    have e2: "evolves st1 ?st2" by (rule evolves_results)
    have e12: "evolves st ?st2" using e1 e2 by (rule evolves_trans)
    have "made ?st2" using e12 Cons.prems(1) by (rule evolves_made)
    then have "evolves ?st2 (snd (snd (attachments_loop as (Suc i) email_id ?st2)))"
      using Cons.IH Cons.prems(2) by blast
    with e12 have "evolves st (snd (snd (attachments_loop as (Suc i) email_id ?st2)))"
      by (rule evolves_trans)
    then show ?thesis using Some t sv by (simp add: case_prod_beta Let_def)
  qed
qed


lemma extract_attachments_evolves:
  "made st \<Longrightarrow> plain_name email_id \<Longrightarrow> evolves st (snd (extract_attachments m email_id st))"
  using attachments_loop_evolves
  by (cases "m_attachments m")
     (auto simp: extract_attachments_def logger_debug evolves_refl case_prod_beta)


lemma extract_recipients_state: "snd (extract_recipients m st) = st"
  by (cases "m_recipients m")
     (auto simp: extract_recipients_def logger_debug case_prod_beta)

lemma extract_single_email_evolves:
  assumes "made st"
  shows "evolves st (snd (extract_single_email m p st))"
proof -
  have pl: "plain_name (generate_email_id m st)" by (rule generate_email_id_plain)
  have ea: "evolves st (snd (extract_attachments m (generate_email_id m st) st))"
    using assms pl by (rule extract_attachments_evolves)
  have lg: "\<And>l e x. evolves st x \<Longrightarrow> evolves st (logger l e x)"
    using evolves_logger evolves_trans by blast
  obtain rc s1 where rc: "extract_recipients m st = (rc, s1)" by force
  then have s1: "s1 = st" using extract_recipients_state [of m st] by simp
  show ?thesis
    using ea lg [OF ea] lg [OF evolves_refl] rc s1
    by (auto simp: extract_single_email_def Let_def case_prod_beta evolves_refl
        split: option.splits)
qed



lemma process_messages_evolves:
  "made st \<Longrightarrow> evolves st (snd (process_messages ms p st))"
proof (induction ms arbitrary: st)
  case Nil
  then show ?case by (simp add: evolves_refl)
next
  case (Cons m ms)
  obtain r st1 where r: "extract_single_email m p st = (r, st1)" by force
  have e1: "evolves st st1" using extract_single_email_evolves [OF Cons.prems, of m p] r by simp
  then have "made st1" using Cons.prems by (rule evolves_made)
  then have "evolves st1 (snd (process_messages ms p st1))" by (rule Cons.IH)
  with e1 have "evolves st (snd (process_messages ms p st1))" by (rule evolves_trans)
  then show ?case using r by (simp add: case_prod_beta)
qed


lemma walk_evolves:
  "made st \<longrightarrow> evolves st (snd (extract_emails f path st))"
  "made st \<longrightarrow> evolves st (snd (snd (walk_sub_folders subs parent st)))"
proof (induction f path st and subs parent st rule: extract_emails_walk_sub_folders.induct)
  case (1 name sub_folders messages parent_path st)
  show ?case
  proof
    assume m: "made st"
    obtain es ok st1 where w: "walk_sub_folders sub_folders parent_path st = (es, ok, st1)"
      by (metis prod_cases3)
    have e1: "evolves st st1" using 1 m w by simp
    then have m1: "made st1" using m by (rule evolves_made)
    have lg: "evolves st (logger ERROR Email_extraction_error st1)"
      using e1 evolves_logger evolves_trans by blast
    have pm: "\<And>ms. evolves st (snd (process_messages ms parent_path st1))"
      using e1 process_messages_evolves [OF m1] evolves_trans by blast
    show "evolves st (snd (extract_emails (Folder name (Has sub_folders) messages) parent_path st))"
      using w lg pm by (cases ok; cases messages) (simp_all add: case_prod_beta)
  qed
next
  case (2 name messages parent_path st)
  then show ?case by (simp add: evolves_logger)
next
  case (3 name messages parent_path st)
  then show ?case by (simp add: evolves_logger)
next
  case (4 parent_path st)
  then show ?case by (simp add: evolves_refl)
next
  case (5 sub_folder rest parent_path st)
  show ?case
  proof
    assume m: "made st"
    show "evolves st (snd (snd (walk_sub_folders (sub_folder # rest) parent_path st)))"
    proof (cases "f_name sub_folder")
      case Missing
      then show ?thesis by (simp add: evolves_refl)
    next
      case Fails
      then show ?thesis by (simp add: evolves_refl)
    next
      case (Has sub_name)
      let ?path = "if parent_path \<noteq> [] then parent_path @ ''/'' @ sub_name else sub_name"
      let ?st1 = "logger INFO (Processing_folder ?path) st"
      obtain es st2 where e: "extract_emails sub_folder ?path ?st1 = (es, st2)" by force
      obtain more ok st3 where w: "walk_sub_folders rest parent_path st2 = (more, ok, st3)"
        by (metis prod_cases3)
      have a: "evolves st ?st1" by (rule evolves_logger)
      then have m1: "made ?st1" using m by (rule evolves_made)
      have b: "evolves ?st1 st2" using "5.IH"(1) [OF Has refl refl] m1 e by simp
      with a have ab: "evolves st st2" by (rule evolves_trans)
      then have m2: "made st2" using m by (rule evolves_made)
      have c: "evolves st2 st3" using "5.IH"(2) [OF Has refl refl e [symmetric] refl] m2 w by simp
      with ab have "evolves st st3" by (rule evolves_trans)
      then show ?thesis using Has e w by (simp add: Let_def)
    qed
  qed
qed


subsection \<open>Attachments and their emails\<close>



















subsection \<open>The attachment count of the table\<close>




subsection \<open>Where an attachment is written\<close>

lemma mkdir_owner_dirs:
  assumes p: "plain_name email_id"
    and k: "mkdir_parents w (out @ [''attachments'', email_id]) = Some fs1"
  shows "is_dir fs1 (resolve out @ [''attachments'', email_id])"
    and "is_dir fs1 (resolve out @ [''attachments''])"
proof -
  let ?D = "out @ [''attachments'', email_id]"
  have d: "dirs fs1 = dirs w \<union> set (map resolve (prefixes ?D))"
    using mkdir_parents_effect [OF k] by simp
  have "?D \<in> set (prefixes ?D)" by (simp add: in_set_prefixes)
  then have "resolve ?D \<in> dirs fs1" using d by auto
  then show "is_dir fs1 (resolve out @ [''attachments'', email_id])"
    using owner_dir_resolved [OF p, of out] by (simp add: is_dir_def)
  have "out @ [''attachments''] \<in> set (prefixes ?D)" by (simp add: in_set_prefixes)
  then have "resolve (out @ [''attachments'']) \<in> dirs fs1" using d by auto
  moreover have "resolve (out @ [''attachments'']) = resolve out @ [''attachments'']"
    using resolve_snoc [of out "''attachments''"] by simp
  ultimately show "is_dir fs1 (resolve out @ [''attachments''])" by (simp add: is_dir_def)
qed

lemma save_attachment_writes:
  assumes p: "plain_name email_id" and sv: "save_attachment a email_id index st = (r, st')"
  shows "(r = None \<longrightarrow> files (fs st') = files (fs st)) \<and>
     (\<forall>path. r = Some path \<longrightarrow>
        (\<exists>filename data.
           getattr_d (a_name a) (Some (''attachment_'' @ show_nat index)) = Some (Some filename) \<and>
           a_data a = Has data \<and> data \<noteq> [] \<and>
           plain_name (safe_filename filename index) \<and>
           path = output_dir st @ [''attachments'', email_id, safe_filename filename index] \<and>
           files (fs st') =
             (files (fs st))(resolve (output_dir st) @
                [''attachments'', email_id, safe_filename filename index] \<mapsto> Payload data)))"
proof -
  let ?D = "output_dir st @ [''attachments'', email_id]"
  have D: "path_join (path_join (output_dir st) ''attachments'') email_id = ?D"
    using p by (simp add: path_join_plain plain_name_def)
  show ?thesis
  proof (cases "mkdir_parents (fs st) ?D")
    case None
    then show ?thesis using sv by (auto simp: save_attachment_def D logger_def)
  next
    case (Some fs1)
    have f1: "files fs1 = files (fs st)" using mkdir_parents_effect [OF Some] by simp
    note own = mkdir_owner_dirs [OF p Some]
    show ?thesis
    proof (cases "getattr_d (a_name a) (Some (''attachment_'' @ show_nat index))")
      case None
      then show ?thesis using sv Some f1 by (auto simp: save_attachment_def D logger_def)
    next
      case outer: (Some nm)
      show ?thesis
      proof (cases nm)
        case None
        then show ?thesis using sv Some outer f1 by (auto simp: save_attachment_def D logger_def)
      next
        case inner: (Some filename)
        let ?safe = "safe_filename filename index"
        show ?thesis
        proof (cases "a_data a")
          case Missing
          then show ?thesis using sv Some outer inner f1 by (auto simp: save_attachment_def D)
        next
          case Fails
          then show ?thesis
            using sv Some outer inner f1 by (auto simp: save_attachment_def D logger_def)
        next
          case (Has data)
          show ?thesis
          proof (cases "data = []")
            case True
            then show ?thesis
              using sv Some outer inner Has f1 by (auto simp: save_attachment_def D)
          next
            case False
            show ?thesis
            proof (cases "write_file fs1 (path_join ?D ?safe) (Payload data)")
              case None
              then show ?thesis
                using sv Some outer inner Has False f1
                by (auto simp: save_attachment_def D logger_def)
            next
              case w: (Some fs2)
              note eff = write_file_effect [OF w]
              have rD: "resolve ?D = resolve (output_dir st) @ [''attachments'', email_id]"
                by (rule owner_dir_resolved [OF p])
              have nd: "?safe \<noteq> ''.''"
              proof
                assume "?safe = ''.''"
                then have "path_join ?D ?safe = ?D" by (simp add: path_join_def parts_dot)
                then show False using eff own(1) rD by simp
              qed
              then have j: "path_join ?D ?safe = ?D @ [?safe]"
                using safe_filename_no_slash safe_filename_nonempty by (simp add: path_join_plain)
              have ndd: "?safe \<noteq> ''..''"
              proof
                assume dd: "?safe = ''..''"
                have "resolve (?D @ [?safe]) = butlast (resolve ?D)"
                  using resolve_snoc [of ?D ?safe] dd by simp
                then have "resolve (path_join ?D ?safe) = resolve (output_dir st) @ [''attachments'']"
                  using j rD by (simp add: butlast_append)
                then show False using eff own(2) by simp
              qed
              have rq: "resolve (path_join ?D ?safe) =
                  resolve (output_dir st) @ [''attachments'', email_id, ?safe]"
                using resolve_snoc [of ?D ?safe] ndd j rD by simp
              have pl: "plain_name ?safe"
                using nd ndd safe_filename_no_slash safe_filename_nonempty
                by (simp add: plain_name_def)
              have r: "r = Some (?D @ [?safe])" and s': "st' = st\<lparr>fs := fs2\<rparr>"
                using sv Some outer inner Has False w j by (simp_all add: save_attachment_def D)
              show ?thesis using r s' outer inner Has False pl eff f1 rq by simp
            qed
          qed
        qed
      qed
    qed
  qed
qed

lemmas fs_defs = save_attachment_def path_join_def parts_def mkdir_parents_def write_file_def
  resolve_def is_dir_def safe_filename_def keep_char_def isalnum_def rstrip_def isspace_def
  getattr_d_def Let_def logger_def

text \<open>
  C9. The owner id is one path component (as every id \<open>_generate_email_id\<close> makes is,
  \<open>generate_email_id_plain\<close>). Then a path that \<open>_save_attachment\<close> returns is
  \<open><output_dir>/attachments/<owner id>/<sanitized name>\<close>, it resolves to that file of the
  owner directory, and the file is there afterwards; and whatever the declared name is, a
  file that the call changed lies directly in the owner directory. A name that
  sanitizes to \<open>.\<close> or \<open>..\<close> names a directory, so that write fails and nothing is
  written.
\<close>

theorem saved_path_in_owner_directory:
  assumes "plain_name email_id" and "save_attachment a email_id index st = (r, st')"
  shows "(\<forall>q. files (fs st') q \<noteq> files (fs st) q \<longrightarrow>
        (\<exists>name. plain_name name \<and>
           q = resolve (output_dir st) @ [''attachments'', email_id, name])) \<and>
     (\<forall>path. r = Some path \<longrightarrow>
        (\<exists>filename.
           getattr_d (a_name a) (Some (''attachment_'' @ show_nat index)) = Some (Some filename) \<and>
           path = output_dir st @ [''attachments'', email_id, safe_filename filename index] \<and>
           resolve path =
             resolve (output_dir st) @ [''attachments'', email_id, safe_filename filename index] \<and>
           files (fs st') (resolve path) \<noteq> None))"
proof (cases r)
  case None
  then have "files (fs st') = files (fs st)" using save_attachment_writes [OF assms] by simp
  then show ?thesis using None by simp
next
  case (Some path)
  then obtain filename data where
    n: "getattr_d (a_name a) (Some (''attachment_'' @ show_nat index)) = Some (Some filename)"
    and pl: "plain_name (safe_filename filename index)"
    and pa: "path = output_dir st @ [''attachments'', email_id, safe_filename filename index]"
    and fi: "files (fs st') = (files (fs st))(resolve (output_dir st) @
                [''attachments'', email_id, safe_filename filename index] \<mapsto> Payload data)"
    using save_attachment_writes [OF assms] by blast
  have "resolve ((output_dir st @ [''attachments'', email_id]) @ [safe_filename filename index]) =
      resolve (output_dir st @ [''attachments'', email_id]) @ [safe_filename filename index]"
    using resolve_snoc [of "output_dir st @ [''attachments'', email_id]" "safe_filename filename index"]
      pl by (simp add: plain_name_def)
  then have rp: "resolve path =
      resolve (output_dir st) @ [''attachments'', email_id, safe_filename filename index]"
    using owner_dir_resolved [OF assms(1), of "output_dir st"] pa by simp
  have 1: "\<forall>q. files (fs st') q \<noteq> files (fs st) q \<longrightarrow>
        (\<exists>name. plain_name name \<and>
           q = resolve (output_dir st) @ [''attachments'', email_id, name])"
    using fi pl by (auto split: if_splits)
  show ?thesis using 1 Some n pa rp fi by auto
qed

theorem saved_path_in_owner_directory_witness:
  "plain_name ''0123456789abcdef'' \<and>
   fst (save_attachment (file_named ''a:b*c.txt'' ''data'') ''0123456789abcdef'' 0
          (analyzer0 None))
     = Some [''out'', ''attachments'', ''0123456789abcdef'', ''abc.txt''] \<and>
   files (fs (snd (save_attachment (file_named ''a:b*c.txt'' ''data'') ''0123456789abcdef'' 0
          (analyzer0 None))))
       (resolve [''out'', ''attachments'', ''0123456789abcdef'', ''abc.txt'']) \<noteq> None \<and>
   fst (save_attachment (file_named ''..'' ''data'') ''0123456789abcdef'' 0 (analyzer0 None))
     = None"
proof -
  let ?a = "file_named ''a:b*c.txt'' ''data''"
  let ?r = "save_attachment ?a ''0123456789abcdef'' 0 (analyzer0 None)"
  have p: "plain_name ''0123456789abcdef''" by (simp add: plain_name_def)
  have r: "fst ?r = Some [''out'', ''attachments'', ''0123456789abcdef'', ''abc.txt'']"
    by (simp add: fs_defs example_defs)
  have e: "?r = (fst ?r, snd ?r)" by simp
  have d: "fst (save_attachment (file_named ''..'' ''data'') ''0123456789abcdef'' 0
      (analyzer0 None)) = None"
    by (simp add: fs_defs example_defs)
  from saved_path_in_owner_directory [OF p e] r
  have "files (fs (snd ?r))
      (resolve [''out'', ''attachments'', ''0123456789abcdef'', ''abc.txt'']) \<noteq> None"
    by auto
  with p r d show ?thesis by blast
qed

end
